theory Spec2Isabelle
  imports Complex_Main "HOL-Library.Sublist" "HOL-Library.Product_Lexorder"
begin

section \<open>JavaScript values used by the handlers of app.js\<close>

text \<open>
  A JavaScript Number is modelled as an exact rational, or one of the three special
  values. Every finite double is a rational; rounding of sums and of decimal literals
  to the nearest double, and the sign of zero, are not modelled. Strings are lists of
  ASCII characters.
\<close>

datatype number = NaN | PosInf | NegInf | Fin rat

definition is_white :: "char \<Rightarrow> bool" where
  "is_white c = ((of_char c :: nat) \<in> {9, 10, 11, 12, 13, 32})"

definition is_digit :: "char \<Rightarrow> bool" where
  "is_digit c = (48 \<le> (of_char c :: nat) \<and> (of_char c :: nat) \<le> 57)"

text \<open>The value of a digit in a radix up to 16: \<open>0-9\<close>, \<open>a-f\<close>, \<open>A-F\<close>.\<close>

definition digit_of :: "char \<Rightarrow> nat option" where
  "digit_of c =
     (let n = (of_char c :: nat) in
      if 48 \<le> n \<and> n \<le> 57 then Some (n - 48)
      else if 97 \<le> n \<and> n \<le> 102 then Some (n - 87)
      else if 65 \<le> n \<and> n \<le> 70 then Some (n - 55)
      else None)"

definition is_radix_digit :: "nat \<Rightarrow> char \<Rightarrow> bool" where
  "is_radix_digit radix c = (case digit_of c of None \<Rightarrow> False | Some d \<Rightarrow> d < radix)"

definition digits_value :: "nat \<Rightarrow> string \<Rightarrow> nat" where
  "digits_value radix ds = foldl (\<lambda>a c. radix * a + (case digit_of c of None \<Rightarrow> 0 | Some d \<Rightarrow> d)) 0 ds"

definition strip_sign :: "string \<Rightarrow> bool \<times> string" where
  "strip_sign s =
     (case s of
        [] \<Rightarrow> (False, s)
      | c # cs \<Rightarrow> if c = CHR ''-'' then (True, cs) else if c = CHR ''+'' then (False, cs) else (False, s))"

definition has_prefix_ci :: "char \<Rightarrow> string \<Rightarrow> bool" where
  "has_prefix_ci x s =
     (case s of
        a # b # _ \<Rightarrow> a = CHR ''0'' \<and> ((of_char b :: nat) = of_char x \<or> (of_char b :: nat) + 32 = of_char x)
      | _ \<Rightarrow> False)"

text \<open>
  \<open>parseInt(string)\<close> with no radix argument: leading white space is skipped, a sign
  is read, \<open>0x\<close> or \<open>0X\<close> selects radix 16, and the longest prefix of digits is the
  value; with no digit the result is NaN.
\<close>

definition parseInt :: "string \<Rightarrow> number" where
  "parseInt str =
     (let (neg, s1) = strip_sign (dropWhile is_white str);
          (radix, s2) = (if has_prefix_ci CHR ''x'' s1 then (16, drop 2 s1) else (10, s1));
          z = takeWhile (is_radix_digit radix) s2
      in if z = [] then NaN
         else Fin (if neg then - of_nat (digits_value radix z) else of_nat (digits_value radix z)))"

text \<open>
  The longest prefix of a string that is a \<open>StrDecimalLiteral\<close>
  (sign, then \<open>Infinity\<close>, or digits with an optional fraction and exponent), with its
  value and the rest of the string.
\<close>

definition scan_exponent :: "string \<Rightarrow> int \<times> string" where
  "scan_exponent s =
     (case s of
        [] \<Rightarrow> (0, s)
      | c # cs \<Rightarrow>
          if c = CHR ''e'' \<or> c = CHR ''E'' then
            (let (neg, t) = strip_sign cs; ds = takeWhile is_digit t in
             if ds = [] then (0, s)
             else (if neg then - int (digits_value 10 ds) else int (digits_value 10 ds),
                   dropWhile is_digit t))
          else (0, s))"

definition scale10 :: "rat \<Rightarrow> int \<Rightarrow> rat" where
  "scale10 m e = (if 0 \<le> e then m * 10 ^ nat e else m / 10 ^ nat (- e))"

definition scan_decimal :: "string \<Rightarrow> (number \<times> string) option" where
  "scan_decimal s =
     (let (neg, s1) = strip_sign s in
      if take 8 s1 = ''Infinity'' then Some (if neg then NegInf else PosInf, drop 8 s1)
      else
        let ip = takeWhile is_digit s1; r1 = dropWhile is_digit s1;
            (fp, r2) = (case r1 of
                          [] \<Rightarrow> ([], r1)
                        | c # t \<Rightarrow> if c = CHR ''.'' \<and> (ip \<noteq> [] \<or> takeWhile is_digit t \<noteq> [])
                                   then (takeWhile is_digit t, dropWhile is_digit t) else ([], r1))
        in if ip = [] \<and> fp = [] then None
           else
             let (e, r3) = scan_exponent r2;
                 m = of_nat (digits_value 10 (ip @ fp)) / 10 ^ length fp;
                 v = scale10 m e
             in Some (Fin (if neg then - v else v), r3))"

definition parseFloat :: "string \<Rightarrow> number" where
  "parseFloat str = (case scan_decimal (dropWhile is_white str) of None \<Rightarrow> NaN | Some (v, _) \<Rightarrow> v)"

text \<open>
  \<open>ToNumber\<close> of a string, as applied by \<open>-\<close>, \<open>*\<close> and \<open>/\<close>: white space is
  trimmed on both sides, the empty string is 0, and the whole rest must be a decimal
  literal or an unsigned \<open>0x\<close>, \<open>0o\<close> or \<open>0b\<close> integer.
\<close>

definition trim :: "string \<Rightarrow> string" where
  "trim s = rev (dropWhile is_white (rev (dropWhile is_white s)))"

definition radix_literal :: "nat \<Rightarrow> string \<Rightarrow> number" where
  "radix_literal radix ds =
     (if ds \<noteq> [] \<and> list_all (is_radix_digit radix) ds then Fin (of_nat (digits_value radix ds)) else NaN)"

definition toNumber :: "string \<Rightarrow> number" where
  "toNumber str =
     (let s = trim str in
      if s = [] then Fin 0
      else if has_prefix_ci CHR ''x'' s then radix_literal 16 (drop 2 s)
      else if has_prefix_ci CHR ''o'' s then radix_literal 8 (drop 2 s)
      else if has_prefix_ci CHR ''b'' s then radix_literal 2 (drop 2 s)
      else (case scan_decimal s of Some (v, []) \<Rightarrow> v | _ \<Rightarrow> NaN))"

text \<open>
  The text of a whole number that is not negative, as a template literal of
  TransactionDashboard.js writes \<open>page\<close> and the selected month into a URL.
\<close>

definition digit_char :: "nat \<Rightarrow> char" where
  "digit_char d = char_of (48 + d)"

fun decimal :: "nat \<Rightarrow> string" where
  "decimal n = (if n < 10 then [digit_char n] else decimal (n div 10) @ [digit_char (n mod 10)])"

declare decimal.simps [simp del]

text \<open>A query parameter is truthy when it is present and not the empty string.\<close>

definition truthy :: "string option \<Rightarrow> bool" where
  "truthy p = (case p of None \<Rightarrow> False | Some s \<Rightarrow> s \<noteq> [])"

text \<open>\<open>parseInt(p)\<close> of a query parameter; \<open>undefined\<close> is first turned into a string.\<close>

definition parseInt_param :: "string option \<Rightarrow> number" where
  "parseInt_param p = parseInt (case p of None \<Rightarrow> ''undefined'' | Some s \<Rightarrow> s)"

text \<open>\<open>x || 0\<close> on a Number: NaN and 0 are falsy.\<close>

definition or_zero :: "number \<Rightarrow> number" where
  "or_zero x = (if x = NaN \<or> x = Fin 0 then Fin 0 else x)"

fun js_sub :: "number \<Rightarrow> number \<Rightarrow> number" where
  "js_sub (Fin a) (Fin b) = Fin (a - b)"
| "js_sub NaN _ = NaN"
| "js_sub _ NaN = NaN"
| "js_sub PosInf PosInf = NaN"
| "js_sub NegInf NegInf = NaN"
| "js_sub PosInf _ = PosInf"
| "js_sub NegInf _ = NegInf"
| "js_sub (Fin a) PosInf = NegInf"
| "js_sub (Fin a) NegInf = PosInf"

definition signed_inf :: "bool \<Rightarrow> number" where
  "signed_inf positive = (if positive then PosInf else NegInf)"

fun js_mul :: "number \<Rightarrow> number \<Rightarrow> number" where
  "js_mul (Fin a) (Fin b) = Fin (a * b)"
| "js_mul NaN _ = NaN"
| "js_mul _ NaN = NaN"
| "js_mul PosInf PosInf = PosInf"
| "js_mul NegInf NegInf = PosInf"
| "js_mul PosInf NegInf = NegInf"
| "js_mul NegInf PosInf = NegInf"
| "js_mul PosInf (Fin b) = (if b = 0 then NaN else signed_inf (0 < b))"
| "js_mul NegInf (Fin b) = (if b = 0 then NaN else signed_inf (b < 0))"
| "js_mul (Fin a) PosInf = (if a = 0 then NaN else signed_inf (0 < a))"
| "js_mul (Fin a) NegInf = (if a = 0 then NaN else signed_inf (a < 0))"

fun js_div :: "number \<Rightarrow> number \<Rightarrow> number" where
  "js_div (Fin a) (Fin b) =
     (if b = 0 then (if a = 0 then NaN else signed_inf (0 < a)) else Fin (a / b))"
| "js_div NaN _ = NaN"
| "js_div _ NaN = NaN"
| "js_div (Fin a) _ = Fin 0"
| "js_div PosInf (Fin b) = signed_inf (0 \<le> b)"
| "js_div NegInf (Fin b) = signed_inf (b < 0)"
| "js_div PosInf PosInf = NaN"
| "js_div PosInf NegInf = NaN"
| "js_div NegInf PosInf = NaN"
| "js_div NegInf NegInf = NaN"

fun Math_ceil :: "number \<Rightarrow> number" where
  "Math_ceil (Fin a) = Fin (of_int \<lceil>a\<rceil>)"
| "Math_ceil x = x"

section \<open>The data model\<close>

text \<open>A stored \<open>Date\<close>, by its UTC calendar components; \<open>$month\<close> reads the second.\<close>

record date =
  utc_year :: int
  utc_month :: nat
  utc_day :: nat

text \<open>
  \<open>transactionSchema\<close>. The fields \<open>id\<close> and \<open>image\<close> are renamed, since HOL has
  constants of these names. Every field of the schema is present in a stored record.
\<close>

record transaction =
  id_num :: int
  title :: string
  price :: rat
  description :: string
  category :: string
  image_url :: string
  sold :: bool
  dateOfSale :: date

text \<open>
  The collection: its documents in storage order, and whether the database answers.
  An operation on a database that does not answer throws.
\<close>

record db =
  up :: bool
  docs :: "transaction list"

datatype failure = Thrown | Outside_model

text \<open>
  What a handler sends: a JSON body, or status 500 with a fixed message. \<open>Unmodelled\<close>
  marks a request whose treatment by the regular-expression engine, the pagination
  options or the URL parser is outside this model.
\<close>

datatype 'a response = Json 'a | Status500 string | Unmodelled

text \<open>\<open>req.query\<close>: each parameter is a string or absent.\<close>

record req_query =
  q_month :: "string option"
  q_search :: "string option"
  q_page :: "string option"
  q_perPage :: "string option"

section \<open>Aggregation stages\<close>

text \<open>
  \<open>{ $match: { $expr: { $eq: [{ $month: '$dateOfSale' }, n] } } }\<close>: the documents
  whose month of sale is the number \<open>n\<close>.
\<close>

definition month_eq :: "number \<Rightarrow> transaction \<Rightarrow> bool" where
  "month_eq n r = (Fin (of_nat (utc_month (dateOfSale r))) = n)"

definition match_month :: "number \<Rightarrow> transaction list \<Rightarrow> transaction list" where
  "match_month n ds = filter (month_eq n) ds"

text \<open>
  \<open>Transaction.aggregate(pipeline)\<close>: the pipeline runs over the documents in storage
  order, or the call throws.
\<close>

definition aggregate :: "db \<Rightarrow> (transaction list \<Rightarrow> 'a) \<Rightarrow> failure + 'a" where
  "aggregate d pipeline = (if up d then Inr (pipeline (docs d)) else Inl Thrown)"

definition respond :: "string \<Rightarrow> failure + 'a \<Rightarrow> 'a response" where
  "respond msg r =
     (case r of Inr v \<Rightarrow> Json v | Inl Thrown \<Rightarrow> Status500 msg | Inl Outside_model \<Rightarrow> Unmodelled)"

subsection \<open>Statistics\<close>

text \<open>
  The document of the \<open>$group\<close> stage with \<open>_id: null\<close>; \<open>has_id\<close> tells whether
  the \<open>_id\<close> field is there (it is absent from the default object of the handler).
\<close>

record stats =
  has_id :: bool
  totalSaleAmount :: rat
  totalSoldItems :: nat
  totalNotSoldItems :: nat

text \<open>One step of the three \<open>$sum\<close> accumulators, each over a \<open>$cond\<close>.\<close>

definition stats_step :: "stats \<Rightarrow> transaction \<Rightarrow> stats" where
  "stats_step acc r =
     acc\<lparr> totalSaleAmount := totalSaleAmount acc + (if sold r = True then price r else 0),
          totalSoldItems := totalSoldItems acc + (if sold r = True then 1 else 0),
          totalNotSoldItems := totalNotSoldItems acc + (if sold r = False then 1 else 0) \<rparr>"

text \<open>\<open>$group\<close> with a constant \<open>_id\<close>: no document for an empty input, else one.\<close>

definition group_null :: "transaction list \<Rightarrow> stats list" where
  "group_null ds =
     (if ds = [] then []
      else [foldl stats_step
              \<lparr> has_id = True, totalSaleAmount = 0, totalSoldItems = 0, totalNotSoldItems = 0 \<rparr> ds])"

definition statistics_handler :: "db \<Rightarrow> req_query \<Rightarrow> stats response" where
  "statistics_handler d q =
     respond ''Failed to fetch statistics''
       (case aggregate d (\<lambda>ds. group_null (match_month (parseInt_param (q_month q)) ds)) of
          Inl e \<Rightarrow> Inl e
        | Inr st \<Rightarrow>
            Inr (case st of
                   [] \<Rightarrow> \<lparr> has_id = False, totalSaleAmount = 0, totalSoldItems = 0, totalNotSoldItems = 0 \<rparr>
                 | s # _ \<Rightarrow> s))"

subsection \<open>Category breakdown\<close>

text \<open>An output document \<open>{ _id, count }\<close> of a \<open>$group\<close> or \<open>$bucket\<close> stage.\<close>

record 'k group_doc =
  doc_id :: 'k
  doc_count :: nat

text \<open>
  \<open>{ $group: { _id: key, count: { $sum: 1 } } }\<close>: each document adds one to the
  group of its key, opening the group when the key is new. The groups are listed in
  the order in which their keys first occur; the database promises no order.
\<close>

fun add_to_group :: "'k \<Rightarrow> 'k group_doc list \<Rightarrow> 'k group_doc list" where
  "add_to_group k [] = [\<lparr> doc_id = k, doc_count = 1 \<rparr>]"
| "add_to_group k (g # gs) =
     (if doc_id g = k then g\<lparr> doc_count := doc_count g + 1 \<rparr> # gs else g # add_to_group k gs)"

definition group_count :: "('a \<Rightarrow> 'k) \<Rightarrow> 'a list \<Rightarrow> 'k group_doc list" where
  "group_count key ds = foldl (\<lambda>gs r. add_to_group (key r) gs) [] ds"

definition pie_chart_handler :: "db \<Rightarrow> req_query \<Rightarrow> string group_doc list response" where
  "pie_chart_handler d q =
     respond ''Failed to fetch pie chart data''
       (aggregate d (\<lambda>ds. group_count category (match_month (parseInt_param (q_month q)) ds)))"

subsection \<open>Price histogram\<close>

text \<open>The \<open>_id\<close> of a bucket: its lower boundary, or the \<open>default\<close> string.\<close>

datatype bucket_id = Lower rat | Default string

definition boundaries :: "rat list" where
  "boundaries = [0, 101, 201, 301, 401, 501, 601, 701, 801, 901]"

text \<open>
  The bucket of a value: the first pair of adjacent boundaries \<open>lo \<le> v < hi\<close>, and
  the default bucket for a value below the first or from the last boundary on.
\<close>

fun bucket_of :: "rat list \<Rightarrow> rat \<Rightarrow> bucket_id" where
  "bucket_of (lo # hi # bs) v = (if lo \<le> v \<and> v < hi then Lower lo else bucket_of (hi # bs) v)"
| "bucket_of _ v = Default ''901-above''"

text \<open>The order of \<open>_id\<close> values: numbers by value, before every string.\<close>

fun bson_rank :: "bucket_id \<Rightarrow> nat \<times> rat" where
  "bson_rank (Lower b) = (0, b)"
| "bson_rank (Default s) = (1, 0)"

text \<open>
  \<open>$bucket\<close> groups by bucket and sorts the groups by \<open>_id\<close>. A bucket that no
  document falls into has no group, hence no output document.
\<close>

definition bucket_stage :: "transaction list \<Rightarrow> bucket_id group_doc list" where
  "bucket_stage ds =
     sort_key (\<lambda>g. bson_rank (doc_id g)) (group_count (\<lambda>r. bucket_of boundaries (price r)) ds)"

text \<open>The field \<open>range\<close> is renamed: HOL has \<open>range\<close>.\<close>

record bar =
  range_label :: string
  count :: nat

definition initial_result :: "bar list" where
  "initial_result =
     [\<lparr> range_label = ''0 - 100'', count = 0 \<rparr>,
      \<lparr> range_label = ''101 - 200'', count = 0 \<rparr>,
      \<lparr> range_label = ''201 - 300'', count = 0 \<rparr>,
      \<lparr> range_label = ''301 - 400'', count = 0 \<rparr>,
      \<lparr> range_label = ''401 - 500'', count = 0 \<rparr>,
      \<lparr> range_label = ''501 - 600'', count = 0 \<rparr>,
      \<lparr> range_label = ''601 - 700'', count = 0 \<rparr>,
      \<lparr> range_label = ''701 - 800'', count = 0 \<rparr>,
      \<lparr> range_label = ''801 - 900'', count = 0 \<rparr>,
      \<lparr> range_label = ''901 - above'', count = 0 \<rparr>]"

text \<open>
  \<open>barChartData.forEach((item, index) => { if (index < result.length)
  result[index].count = item.count })\<close>, from position \<open>index\<close> on.
\<close>

fun forEach_index :: "nat \<Rightarrow> 'k group_doc list \<Rightarrow> bar list \<Rightarrow> bar list" where
  "forEach_index index [] result = result"
| "forEach_index index (item # items) result =
     forEach_index (index + 1) items
       (if index < length result
        then result[index := (result ! index)\<lparr> count := doc_count item \<rparr>]
        else result)"

definition bar_chart_handler :: "db \<Rightarrow> req_query \<Rightarrow> bar list response" where
  "bar_chart_handler d q =
     respond ''Failed to fetch bar chart data''
       (case aggregate d (\<lambda>ds. bucket_stage (match_month (parseInt_param (q_month q)) ds)) of
          Inl e \<Rightarrow> Inl e
        | Inr barChartData \<Rightarrow> Inr (forEach_index 0 barChartData initial_result))"

section \<open>Filtered listing\<close>

subsection \<open>Regular expressions\<close>

text \<open>
  \<open>{ $regex: search, $options: 'i' }\<close> is modelled for the patterns made of ordinary
  characters and dots: an ordinary character matches itself in either case, a dot any
  character but a line feed, and the pattern may match anywhere in the field. A pattern
  with another metacharacter is outside the model.
\<close>

definition is_meta :: "char \<Rightarrow> bool" where
  "is_meta c = ((of_char c :: nat) \<in> {36, 40, 41, 42, 43, 46, 63, 91, 92, 93, 94, 123, 124, 125})"

definition in_fragment :: "string \<Rightarrow> bool" where
  "in_fragment p = list_all (\<lambda>c. c = CHR ''.'' \<or> \<not> is_meta c) p"

definition lower :: "char \<Rightarrow> char" where
  "lower c = (let n = (of_char c :: nat) in if 65 \<le> n \<and> n \<le> 90 then char_of (n + 32) else c)"

datatype atom = Any_char | Lit char

definition atoms_of :: "string \<Rightarrow> atom list" where
  "atoms_of p = map (\<lambda>c. if c = CHR ''.'' then Any_char else Lit c) p"

fun atom_match :: "atom \<Rightarrow> char \<Rightarrow> bool" where
  "atom_match Any_char c = ((of_char c :: nat) \<noteq> 10)"
| "atom_match (Lit a) c = (lower a = lower c)"

fun match_here :: "atom list \<Rightarrow> string \<Rightarrow> bool" where
  "match_here [] s = True"
| "match_here (a # as) [] = False"
| "match_here (a # as) (c # cs) = (atom_match a c \<and> match_here as cs)"

fun regex_test :: "atom list \<Rightarrow> string \<Rightarrow> bool" where
  "regex_test as [] = match_here as []"
| "regex_test as (c # cs) = (match_here as (c # cs) \<or> regex_test as cs)"

definition regex_i :: "string \<Rightarrow> string \<Rightarrow> bool" where
  "regex_i p s = regex_test (atoms_of p) s"

subsection \<open>The query\<close>

text \<open>
  The \<open>query\<close> object: \<open>$expr\<close> holds the number compared with the month of sale,
  \<open>$or\<close> the pattern for title and description and the number for the price.
\<close>

record mquery =
  q_expr :: "number option"
  q_or :: "(string \<times> number) option"

definition build_query :: "req_query \<Rightarrow> mquery" where
  "build_query q =
     \<lparr> q_expr = (if truthy (q_month q) then Some (parseInt_param (q_month q)) else None),
       q_or = (case q_search q of
                 None \<Rightarrow> None
               | Some search \<Rightarrow>
                   if search \<noteq> [] then Some (search, or_zero (parseFloat search)) else None) \<rparr>"

definition matches :: "mquery \<Rightarrow> transaction \<Rightarrow> bool" where
  "matches qu r =
     ((case q_expr qu of None \<Rightarrow> True | Some n \<Rightarrow> month_eq n r)
      \<and> (case q_or qu of
           None \<Rightarrow> True
         | Some (p, n) \<Rightarrow> regex_i p (title r) \<or> regex_i p (description r) \<or> Fin (price r) = n))"

definition modelled :: "mquery \<Rightarrow> bool" where
  "modelled qu = (case q_or qu of None \<Rightarrow> True | Some (p, n) \<Rightarrow> in_fragment p)"

text \<open>The documents a query selects, in storage order.\<close>

definition select :: "mquery \<Rightarrow> transaction list \<Rightarrow> transaction list" where
  "select qu ds = filter (matches qu) ds"

definition is_whole :: "rat \<Rightarrow> bool" where
  "is_whole x = (of_int \<lfloor>x\<rfloor> = x)"

text \<open>
  Mongoose casts the query before any command goes to the database. A \<open>$expr\<close> that
  compares with NaN does not cast, and the call throws.
\<close>

definition castable :: "mquery \<Rightarrow> bool" where
  "castable qu = (q_expr qu \<noteq> Some NaN)"

text \<open>
  \<open>Transaction.find(query).skip(s).limit(l)\<close>, modelled for a whole \<open>s \<ge> 0\<close> and a
  whole \<open>l \<ge> 1\<close>.
\<close>

definition find :: "db \<Rightarrow> mquery \<Rightarrow> number \<Rightarrow> number \<Rightarrow> failure + transaction list" where
  "find d qu skip limit =
     (if \<not> castable qu then Inl Thrown
      else if \<not> up d then Inl Thrown
      else if \<not> modelled qu then Inl Outside_model
      else (case (skip, limit) of
              (Fin s, Fin l) \<Rightarrow>
                if is_whole s \<and> is_whole l \<and> 0 \<le> s \<and> 1 \<le> l
                then Inr (take (nat \<lfloor>l\<rfloor>) (drop (nat \<lfloor>s\<rfloor>) (select qu (docs d))))
                else Inl Outside_model
            | _ \<Rightarrow> Inl Outside_model))"

definition countDocuments :: "db \<Rightarrow> mquery \<Rightarrow> failure + nat" where
  "countDocuments d qu =
     (if \<not> castable qu then Inl Thrown
      else if \<not> up d then Inl Thrown
      else if \<not> modelled qu then Inl Outside_model
      else Inr (length (select qu (docs d))))"

subsection \<open>The handler\<close>

record listing =
  transactions :: "transaction list"
  total_count :: nat
  page :: number
  perPage :: number
  totalPages :: number

text \<open>The field \<open>total\<close> of the answer is renamed: HOL has \<open>total\<close>.\<close>

text \<open>
  \<open>const { page = 1, perPage = 10 } = req.query\<close>: the variable is the default number
  or the parameter's string. \<open>num_of_param\<close> is its value under \<open>-\<close>, \<open>*\<close> and
  \<open>/\<close>, \<open>int_of_param\<close> under \<open>parseInt\<close> (which leaves 1 and 10 as they are).
\<close>

definition num_of_param :: "rat \<Rightarrow> string option \<Rightarrow> number" where
  "num_of_param dflt p = (case p of None \<Rightarrow> Fin dflt | Some s \<Rightarrow> toNumber s)"

definition int_of_param :: "rat \<Rightarrow> string option \<Rightarrow> number" where
  "int_of_param dflt p = (case p of None \<Rightarrow> Fin dflt | Some s \<Rightarrow> parseInt s)"

definition transactions_handler :: "db \<Rightarrow> req_query \<Rightarrow> listing response" where
  "transactions_handler d q =
     (let query = build_query q;
          pg = num_of_param 1 (q_page q);
          per = num_of_param 10 (q_perPage q)
      in respond ''Failed to fetch transactions''
           (case find d query (js_mul (js_sub pg (Fin 1)) per) (int_of_param 10 (q_perPage q)) of
              Inl e \<Rightarrow> Inl e
            | Inr ts \<Rightarrow>
                (case countDocuments d query of
                   Inl e \<Rightarrow> Inl e
                 | Inr n \<Rightarrow>
                     Inr \<lparr> transactions = ts, total_count = n,
                           page = int_of_param 1 (q_page q),
                           perPage = int_of_param 10 (q_perPage q),
                           totalPages = Math_ceil (js_div (Fin (of_nat n)) per) \<rparr>)))"

section \<open>Combined view\<close>

text \<open>
  The handler requests its own four endpoints with \<open>?month=${month}\<close> and takes the
  JSON body of each answer, whatever its status. The interpolated text reaches the
  endpoint unchanged when it is made of letters, digits and \<open>- _ . ~\<close>; other texts are
  outside the model. An absent parameter is interpolated as \<open>undefined\<close>.
\<close>

definition url_plain :: "char \<Rightarrow> bool" where
  "url_plain c =
     (let n = (of_char c :: nat) in
      (48 \<le> n \<and> n \<le> 57) \<or> (65 \<le> n \<and> n \<le> 90) \<or> (97 \<le> n \<and> n \<le> 122) \<or> n \<in> {45, 46, 95, 126})"

definition interpolate :: "string option \<Rightarrow> string" where
  "interpolate p = (case p of None \<Rightarrow> ''undefined'' | Some s \<Rightarrow> s)"

definition sub_query :: "req_query \<Rightarrow> req_query" where
  "sub_query q =
     \<lparr> q_month = Some (interpolate (q_month q)), q_search = None, q_page = None, q_perPage = None \<rparr>"

record combined =
  c_transactions :: "listing response"
  c_statistics :: "stats response"
  c_barChart :: "bar list response"
  c_pieChart :: "string group_doc list response"

text \<open>\<open>reachable\<close>: whether the four requests to \<open>localhost\<close> are answered.\<close>

definition combined_handler :: "bool \<Rightarrow> db \<Rightarrow> req_query \<Rightarrow> combined response" where
  "combined_handler reachable d q =
     (if \<not> reachable then Status500 ''Failed to fetch combined data''
      else if \<not> list_all url_plain (interpolate (q_month q)) then Unmodelled
      else Json \<lparr> c_transactions = transactions_handler d (sub_query q),
                  c_statistics = statistics_handler d (sub_query q),
                  c_barChart = bar_chart_handler d (sub_query q),
                  c_pieChart = pie_chart_handler d (sub_query q) \<rparr>)"

section \<open>Initialisation\<close>

text \<open>
  What \<open>fetch\<close> and \<open>response.json()\<close> give: a failed request, a body that is not
  JSON, or the parsed data; the data either casts to a list of records of the schema
  or makes \<open>insertMany\<close> throw.
\<close>

datatype json_data = Castable "transaction list" | Uncastable

datatype fetched = Fetch_failed | Body_not_json | Parsed json_data

definition deleteMany :: "db \<Rightarrow> failure + db" where
  "deleteMany d = (if up d then Inr (d\<lparr> docs := [] \<rparr>) else Inl Thrown)"

definition insertMany :: "db \<Rightarrow> json_data \<Rightarrow> failure + db" where
  "insertMany d dat =
     (if \<not> up d then Inl Thrown
      else (case dat of Castable ts \<Rightarrow> Inr (d\<lparr> docs := docs d @ ts \<rparr>) | Uncastable \<Rightarrow> Inl Thrown))"

text \<open>The handler, as a step from the database before to the database after.\<close>

definition initialize_handler :: "fetched \<Rightarrow> db \<Rightarrow> db \<times> string response" where
  "initialize_handler f d =
     (case f of
        Parsed dat \<Rightarrow>
          (case deleteMany d of
             Inl e \<Rightarrow> (d, Status500 ''Failed to initialize database'')
           | Inr d1 \<Rightarrow>
               (case insertMany d1 dat of
                  Inl e \<Rightarrow> (d1, Status500 ''Failed to initialize database'')
                | Inr d2 \<Rightarrow> (d2, Json ''Database initialized successfully'')))
      | _ \<Rightarrow> (d, Status500 ''Failed to initialize database''))"

section \<open>Example data\<close>

text \<open>The records of the scenario: prices 50 and 150 in March, 950 in April.\<close>

definition month_query :: "string \<Rightarrow> req_query" where
  "month_query m = \<lparr> q_month = Some m, q_search = None, q_page = None, q_perPage = None \<rparr>"

definition sale :: "int \<Rightarrow> rat \<Rightarrow> bool \<Rightarrow> nat \<Rightarrow> transaction" where
  "sale i p s m =
     \<lparr> id_num = i, title = ''item'', price = p, description = ''thing'', category = ''misc'',
       image_url = ''img'', sold = s, dateOfSale = \<lparr> utc_year = 2022, utc_month = m, utc_day = 1 \<rparr> \<rparr>"

definition scenario_db :: db where
  "scenario_db = \<lparr> up = True, docs = [sale 1 50 True 3, sale 2 150 False 3, sale 3 950 True 4] \<rparr>"

text \<open>A single record, sold in March at the price 150.\<close>

definition single_150_db :: db where
  "single_150_db = \<lparr> up = True, docs = [sale 1 150 True 3] \<rparr>"

text \<open>Twelve records in March, and eleven.\<close>

definition twelve_db :: db where
  "twelve_db = \<lparr> up = True, docs = replicate 12 (sale 1 50 True 3) \<rparr>"

definition eleven_db :: db where
  "eleven_db = \<lparr> up = True, docs = replicate 11 (sale 1 50 True 3) \<rparr>"

text \<open>Requests: for a search text, and for a page of a search.\<close>

definition search_query :: "string \<Rightarrow> req_query" where
  "search_query s = \<lparr> q_month = None, q_search = Some s, q_page = None, q_perPage = None \<rparr>"

definition listing_query :: "string \<Rightarrow> string \<Rightarrow> string \<Rightarrow> req_query" where
  "listing_query s p n = \<lparr> q_month = None, q_search = Some s, q_page = Some p, q_perPage = Some n \<rparr>"

section \<open>Notions used in the statements\<close>

text \<open>The records whose date of sale has calendar month \<open>m\<close>, in storage order.\<close>

abbreviation in_month :: "nat \<Rightarrow> transaction list \<Rightarrow> transaction list" where
  "in_month m ds \<equiv> filter (\<lambda>r. utc_month (dateOfSale r) = m) ds"

text \<open>The output documents of a grouping stage as an association list.\<close>

definition pairs :: "'k group_doc list \<Rightarrow> ('k \<times> nat) list" where
  "pairs gs = map (\<lambda>g. (doc_id g, doc_count g)) gs"

text \<open>A condition on a query parameter that is asked only when the parameter is provided.\<close>

definition when_given :: "string option \<Rightarrow> (string \<Rightarrow> bool) \<Rightarrow> bool" where
  "when_given p cond = (case p of None \<Rightarrow> True | Some s \<Rightarrow> if s = [] then True else cond s)"

text \<open>
  The request asks for page \<open>p\<close> of size \<open>n\<close>, both at least 1: its \<open>page\<close> and
  \<open>perPage\<close> parameters, or their defaults, read as these numbers.
\<close>

definition paging :: "req_query \<Rightarrow> nat \<Rightarrow> nat \<Rightarrow> bool" where
  "paging q p n =
     (1 \<le> p \<and> 1 \<le> n
      \<and> num_of_param 1 (q_page q) = Fin (of_nat p)
      \<and> num_of_param 10 (q_perPage q) = Fin (of_nat n)
      \<and> int_of_param 10 (q_perPage q) = Fin (of_nat n))"

text \<open>\<open>s\<close> contains \<open>t\<close> as a substring, letter case ignored.\<close>

definition contains_ci :: "string \<Rightarrow> string \<Rightarrow> bool" where
  "contains_ci s t = sublist (map lower t) (map lower s)"

text \<open>The numeric parse of a search text, a text that is not numeric parsing to 0.\<close>

definition numeric_parse :: "string \<Rightarrow> number" where
  "numeric_parse s = (case parseFloat s of NaN \<Rightarrow> Fin 0 | v \<Rightarrow> v)"

text \<open>
  The predicate of the filtered listing in the words of its description: the month of
  sale equals the month, when provided, and, when a search text is provided, title or
  description contain it as a substring in any letter case, or the price equals its
  numeric parse.
\<close>

definition substring_filter :: "string option \<Rightarrow> string option \<Rightarrow> transaction \<Rightarrow> bool" where
  "substring_filter mo se r =
     (when_given mo (\<lambda>m. Fin (of_nat (utc_month (dateOfSale r))) = parseInt m)
      \<and> when_given se (\<lambda>s. contains_ci (title r) s \<or> contains_ci (description r) s
                             \<or> Fin (price r) = numeric_parse s))"

text \<open>The \<open>transactions\<close> component of the answer of the combined view.\<close>

definition transactions_component :: "combined response \<Rightarrow> listing response option" where
  "transactions_component r = (case r of Json c \<Rightarrow> Some (c_transactions c) | _ \<Rightarrow> None)"

section \<open>Properties of the conversions\<close>

text \<open>
  A non-empty text of decimal digits reads as its value under \<open>parseInt\<close> and
  under \<open>ToNumber\<close>, so every month and every page and page size of at least 1
  is asked for by some request.
\<close>

lemma of_char_digit_char: "d < 10 \<Longrightarrow> (of_char (digit_char d) :: nat) = 48 + d"
  by (simp add: digit_char_def)

lemma is_digit_digit_char: "d < 10 \<Longrightarrow> is_digit (digit_char d)"
  by (simp add: is_digit_def of_char_digit_char)

lemma digit_of_digit_char: "d < 10 \<Longrightarrow> digit_of (digit_char d) = Some d"
  by (simp add: digit_of_def of_char_digit_char Let_def)

lemma digits_decimal: "list_all is_digit (decimal n) \<and> decimal n \<noteq> []"
proof (induction n rule: decimal.induct)
  case (1 n)
  show ?case
  proof (cases "n < 10")
    case True
    then show ?thesis by (simp add: decimal.simps [of n] is_digit_digit_char)
  next
    case False
    with 1 show ?thesis by (simp add: decimal.simps [of n] is_digit_digit_char)
  qed
qed

lemma digits_value_snoc:
  "digits_value r (ds @ [c]) = r * digits_value r ds + (case digit_of c of None \<Rightarrow> 0 | Some d \<Rightarrow> d)"
  by (simp add: digits_value_def)

lemma digits_value_decimal: "digits_value 10 (decimal n) = n"
proof (induction n rule: decimal.induct)
  case (1 n)
  show ?case
  proof (cases "n < 10")
    case True
    then show ?thesis
      by (simp add: decimal.simps [of n] digits_value_def digit_of_digit_char)
  next
    case False
    with 1 have "digits_value 10 (decimal (n div 10)) = n div 10" by simp
    with False show ?thesis
      by (simp add: decimal.simps [of n] digits_value_snoc digit_of_digit_char)
  qed
qed

lemma digit_not_white: "is_digit c \<Longrightarrow> \<not> is_white c"
  by (auto simp: is_digit_def is_white_def)

lemma digit_is_radix_digit: "is_digit c \<Longrightarrow> is_radix_digit 10 c"
  by (auto simp: is_digit_def is_radix_digit_def digit_of_def Let_def)

lemma digits_no_prefix:
  assumes "list_all is_digit s" and "(of_char x :: nat) \<in> {98, 111, 120}"
  shows "\<not> has_prefix_ci x s"
proof (cases s)
  case Nil
  then show ?thesis by (simp add: has_prefix_ci_def)
next
  case (Cons a t)
  show ?thesis
  proof (cases t)
    case Nil
    with Cons show ?thesis by (simp add: has_prefix_ci_def)
  next
    case (Cons b u)
    with assms \<open>s = a # t\<close> have "is_digit b" by simp
    with assms(2) Cons \<open>s = a # t\<close> show ?thesis
      by (auto simp: has_prefix_ci_def is_digit_def)
  qed
qed

lemma digits_strip_sign: "list_all is_digit s \<Longrightarrow> strip_sign s = (False, s)"
  by (cases s) (auto simp: strip_sign_def is_digit_def)

lemma digits_dropWhile_white: "list_all is_digit s \<Longrightarrow> dropWhile is_white s = s"
  by (cases s) (auto simp: digit_not_white)

lemma digits_takeWhile: "list_all is_digit s \<Longrightarrow> takeWhile is_digit s = s"
  by (simp add: list_all_iff)

lemma digits_dropWhile: "list_all is_digit s \<Longrightarrow> dropWhile is_digit s = []"
  by (simp add: list_all_iff)

lemma digits_takeWhile_radix: "list_all is_digit s \<Longrightarrow> takeWhile (is_radix_digit 10) s = s"
  by (simp add: list_all_iff digit_is_radix_digit)

lemma parseInt_digits:
  assumes "list_all is_digit s" and "s \<noteq> []"
  shows "parseInt s = Fin (of_nat (digits_value 10 s))"
proof -
  have x: "\<not> has_prefix_ci CHR ''x'' s"
    using assms(1) by (rule digits_no_prefix) simp
  show ?thesis
    using assms(2)
    by (simp add: parseInt_def digits_dropWhile_white [OF assms(1)] digits_strip_sign [OF assms(1)]
        x digits_takeWhile_radix [OF assms(1)])
qed

lemma digits_trim: assumes "list_all is_digit s" shows "trim s = s"
proof -
  have "list_all is_digit (rev s)" using assms by (simp add: list_all_iff)
  then have "dropWhile is_white (rev s) = rev s" by (rule digits_dropWhile_white)
  then show ?thesis by (simp add: trim_def digits_dropWhile_white [OF assms])
qed

lemma digits_not_Infinity:
  assumes "list_all is_digit s" shows "take 8 s \<noteq> ''Infinity''"
proof (cases s)
  case Nil
  then show ?thesis by simp
next
  case (Cons a t)
  with assms have "is_digit a" by simp
  then have "a \<noteq> CHR ''I''" by (auto simp: is_digit_def)
  with Cons show ?thesis by auto
qed

lemma scan_decimal_digits:
  assumes "list_all is_digit s" and "s \<noteq> []"
  shows "scan_decimal s = Some (Fin (of_nat (digits_value 10 s)), [])"
  using assms(2)
  by (simp add: scan_decimal_def digits_strip_sign [OF assms(1)] digits_not_Infinity [OF assms(1)]
      digits_takeWhile [OF assms(1)] digits_dropWhile [OF assms(1)] scan_exponent_def scale10_def)

lemma toNumber_digits:
  assumes "list_all is_digit s" and "s \<noteq> []"
  shows "toNumber s = Fin (of_nat (digits_value 10 s))"
proof -
  have x: "\<not> has_prefix_ci CHR ''x'' s" "\<not> has_prefix_ci CHR ''o'' s" "\<not> has_prefix_ci CHR ''b'' s"
    by (rule digits_no_prefix [OF assms(1)], simp)+
  show ?thesis
    using assms(2)
    by (simp add: toNumber_def digits_trim [OF assms(1)] x scan_decimal_digits [OF assms])
qed

lemma parseInt_decimal: "parseInt (decimal n) = Fin (of_nat n)"
  using parseInt_digits [of "decimal n"] digits_decimal [of n] by (simp add: digits_value_decimal)

lemma toNumber_decimal: "toNumber (decimal n) = Fin (of_nat n)"
  using toNumber_digits [of "decimal n"] digits_decimal [of n] by (simp add: digits_value_decimal)

lemma paging_decimal:
  assumes "1 \<le> p" and "1 \<le> n" and "q_page q = Some (decimal p)" and "q_perPage q = Some (decimal n)"
  shows "paging q p n"
  using assms by (simp add: paging_def num_of_param_def int_of_param_def toNumber_decimal parseInt_decimal)

lemma month_decimal: "q_month q = Some (decimal m) \<Longrightarrow> parseInt_param (q_month q) = Fin (of_nat m)"
  by (simp add: parseInt_param_def parseInt_decimal)

lemma readable_decimal: "when_given (Some (decimal m)) (\<lambda>m. parseInt m \<noteq> NaN)"
  by (simp add: when_given_def parseInt_decimal)

lemma url_plain_decimal: "list_all url_plain (decimal n)"
proof -
  have "is_digit c \<Longrightarrow> url_plain c" for c
    by (auto simp: is_digit_def url_plain_def Let_def)
  with digits_decimal [of n] show ?thesis by (auto simp: list_all_iff)
qed

section \<open>Properties of the aggregation stages\<close>

lemma match_month_nat: "match_month (Fin (of_nat m)) ds = in_month m ds"
  unfolding match_month_def
  by (rule filter_cong) (simp_all add: month_eq_def)

lemma parseInt_3: "parseInt_param (Some ''3'') = Fin (of_nat 3)"
  by (simp add: parseInt_param_def parseInt_def strip_sign_def has_prefix_ci_def is_white_def
      is_radix_digit_def digit_of_def digits_value_def)

lemma scenario_up: "up scenario_db"
  by (simp add: scenario_db_def)

lemma scenario_month: "parseInt_param (q_month (month_query ''3'')) = Fin (of_nat 3)"
  by (simp add: month_query_def parseInt_3)

subsection \<open>Statistics\<close>

lemma foldl_stats_step:
  "foldl stats_step acc ds =
     acc\<lparr> totalSaleAmount := totalSaleAmount acc + sum_list (map price (filter sold ds)),
          totalSoldItems := totalSoldItems acc + length (filter sold ds),
          totalNotSoldItems := totalNotSoldItems acc + length (filter (\<lambda>r. \<not> sold r) ds) \<rparr>"
  by (induction ds arbitrary: acc) (simp_all add: stats_step_def)

lemma statistics_handler_up:
  "up d \<Longrightarrow>
   statistics_handler d q =
     Json (case group_null (match_month (parseInt_param (q_month q)) (docs d)) of
             [] \<Rightarrow> \<lparr> has_id = False, totalSaleAmount = 0, totalSoldItems = 0, totalNotSoldItems = 0 \<rparr>
           | s # _ \<Rightarrow> s)"
  by (simp add: statistics_handler_def aggregate_def respond_def)

lemma group_null_stats:
  "(case group_null ds of
      [] \<Rightarrow> \<lparr> has_id = False, totalSaleAmount = 0, totalSoldItems = 0, totalNotSoldItems = 0 \<rparr>
    | s # _ \<Rightarrow> s) =
   \<lparr> has_id = (ds \<noteq> []), totalSaleAmount = sum_list (map price (filter sold ds)),
     totalSoldItems = length (filter sold ds),
     totalNotSoldItems = length (filter (\<lambda>r. \<not> sold r) ds) \<rparr>"
  by (simp add: group_null_def foldl_stats_step)

lemma statistics_of_month:
  assumes "up d" and "parseInt_param (q_month q) = Fin (of_nat m)"
  shows "statistics_handler d q =
           Json \<lparr> has_id = (in_month m (docs d) \<noteq> []),
                  totalSaleAmount = sum_list (map price (filter sold (in_month m (docs d)))),
                  totalSoldItems = length (filter sold (in_month m (docs d))),
                  totalNotSoldItems = length (filter (\<lambda>r. \<not> sold r) (in_month m (docs d))) \<rparr>"
  using assms by (simp only: statistics_handler_up group_null_stats match_month_nat)

text \<open>
  Claim C5. When the database answers and the \<open>month\<close> parameter reads as the number
  \<open>m\<close>, \<open>/api/statistics\<close> answers with \<open>totalSaleAmount\<close> the sum of the prices of
  the sold records of month \<open>m\<close>, \<open>totalSoldItems\<close> their number and
  \<open>totalNotSoldItems\<close> the number of the records of month \<open>m\<close> that are not sold.
  With no record in month \<open>m\<close> the answer is the object of three zeros. The search text
  of the request plays no role.
\<close>

theorem statistics_sums_and_counts:
  assumes "up d" and "parseInt_param (q_month q) = Fin (of_nat m)"
  shows "statistics_handler d q =
           Json \<lparr> has_id = (in_month m (docs d) \<noteq> []),
                  totalSaleAmount = sum_list (map price (filter sold (in_month m (docs d)))),
                  totalSoldItems = length (filter sold (in_month m (docs d))),
                  totalNotSoldItems = length (filter (\<lambda>r. \<not> sold r) (in_month m (docs d))) \<rparr>
         \<and> (in_month m (docs d) = [] \<longrightarrow>
              statistics_handler d q =
                Json \<lparr> has_id = False, totalSaleAmount = 0, totalSoldItems = 0, totalNotSoldItems = 0 \<rparr>)
         \<and> statistics_handler d (q\<lparr> q_search := s \<rparr>) = statistics_handler d q"
proof -
  note eq = statistics_of_month [OF assms]
  have zero: "in_month m (docs d) = [] \<longrightarrow>
              statistics_handler d q =
                Json \<lparr> has_id = False, totalSaleAmount = 0, totalSoldItems = 0, totalNotSoldItems = 0 \<rparr>"
    unfolding eq by simp
  have indep: "statistics_handler d (q\<lparr> q_search := s \<rparr>) = statistics_handler d q"
    by (simp add: statistics_handler_def)
  from eq zero indep show ?thesis by blast
qed

theorem statistics_sums_and_counts_witness:
  "up scenario_db \<and> parseInt_param (q_month (month_query ''3'')) = Fin (of_nat 3)
   \<and> statistics_handler scenario_db (month_query ''3'') =
       Json \<lparr> has_id = True, totalSaleAmount = 50, totalSoldItems = 1, totalNotSoldItems = 1 \<rparr>"
  using statistics_sums_and_counts [OF scenario_up scenario_month] scenario_up scenario_month
  by (simp add: scenario_db_def sale_def)

text \<open>
  Claim C6. Under the same conditions, \<open>totalSoldItems + totalNotSoldItems\<close> of the
  answer is the number of records of month \<open>m\<close>.
\<close>

theorem statistics_counts_partition:
  assumes "up d" and "parseInt_param (q_month q) = Fin (of_nat m)"
  shows "\<exists>s. statistics_handler d q = Json s
           \<and> totalSoldItems s + totalNotSoldItems s = length (in_month m (docs d))"
proof -
  note statistics_of_month [OF assms]
  moreover have "length (filter sold xs) + length (filter (\<lambda>r. \<not> sold r) xs) = length xs"
    for xs :: "transaction list"
    by (rule sum_length_filter_compl)
  ultimately show ?thesis by (simp del: filter_filter)
qed

theorem statistics_counts_partition_witness:
  "up scenario_db \<and> parseInt_param (q_month (month_query ''3'')) = Fin (of_nat 3)
   \<and> (\<exists>s. statistics_handler scenario_db (month_query ''3'') = Json s
          \<and> totalSoldItems s + totalNotSoldItems s = 2)"
proof -
  have len: "length (in_month 3 (docs scenario_db)) = 2"
    by (simp add: scenario_db_def sale_def)
  from statistics_counts_partition [OF scenario_up scenario_month] scenario_up scenario_month
  show ?thesis by (simp only: len)
qed

subsection \<open>Grouping\<close>

lemma pairs_Nil: "pairs [] = []"
  by (simp add: pairs_def)

lemma ids_add_to_group: "set (map doc_id (add_to_group k gs)) = insert k (set (map doc_id gs))"
  by (induction gs) auto

lemma distinct_add_to_group:
  "distinct (map doc_id gs) \<Longrightarrow> distinct (map doc_id (add_to_group k gs))"
proof (induction gs)
  case Nil
  then show ?case by simp
next
  case (Cons g gs)
  have "set (map doc_id (add_to_group k gs)) = insert k (set (map doc_id gs))"
    by (rule ids_add_to_group)
  with Cons show ?case by auto
qed

lemma sum_add_to_group:
  "sum_list (map doc_count (add_to_group k gs)) = sum_list (map doc_count gs) + 1"
  by (induction gs) auto

lemma lookup_add_to_group:
  "map_of (pairs (add_to_group k gs)) k' =
     (if k' = k then Some (case map_of (pairs gs) k of None \<Rightarrow> 1 | Some n \<Rightarrow> n + 1)
      else map_of (pairs gs) k')"
  by (induction gs) (auto simp: pairs_def)

lemma ids_foldl:
  "set (map doc_id (foldl (\<lambda>gs r. add_to_group (key r) gs) gs0 ds)) =
     set (map doc_id gs0) \<union> key ` set ds"
  by (induction ds arbitrary: gs0) (auto simp: ids_add_to_group simp del: set_map)

lemma distinct_foldl:
  "distinct (map doc_id gs0) \<Longrightarrow>
   distinct (map doc_id (foldl (\<lambda>gs r. add_to_group (key r) gs) gs0 ds))"
  by (induction ds arbitrary: gs0) (auto simp: distinct_add_to_group)

lemma sum_foldl:
  "sum_list (map doc_count (foldl (\<lambda>gs r. add_to_group (key r) gs) gs0 ds)) =
     sum_list (map doc_count gs0) + length ds"
  by (induction ds arbitrary: gs0) (auto simp: sum_add_to_group)

lemma lookup_foldl:
  "map_of (pairs (foldl (\<lambda>gs r. add_to_group (key r) gs) gs0 ds)) k =
     (case map_of (pairs gs0) k of
        None \<Rightarrow> if k \<in> key ` set ds then Some (length (filter (\<lambda>r. key r = k) ds)) else None
      | Some c \<Rightarrow> Some (c + length (filter (\<lambda>r. key r = k) ds)))"
proof (induction ds arbitrary: gs0)
  case Nil
  then show ?case by (simp split: option.splits)
next
  case (Cons r ds)
  show ?case
    by (auto simp: Cons.IH lookup_add_to_group split: option.splits)
qed

lemma ids_group_count: "set (map doc_id (group_count key ds)) = key ` set ds"
  unfolding group_count_def by (simp add: ids_foldl del: set_map)

lemma distinct_group_count: "distinct (map doc_id (group_count key ds))"
  unfolding group_count_def by (rule distinct_foldl) simp

lemma sum_group_count: "sum_list (map doc_count (group_count key ds)) = length ds"
  unfolding group_count_def by (simp add: sum_foldl)

lemma count_group_count:
  assumes "g \<in> set (group_count key ds)"
  shows "doc_count g = length (filter (\<lambda>r. key r = doc_id g) ds)"
proof -
  have d: "distinct (map fst (pairs (group_count key ds)))"
    using distinct_group_count [of key ds] by (simp add: pairs_def comp_def)
  have "(doc_id g, doc_count g) \<in> set (pairs (group_count key ds))"
    using assms by (auto simp: pairs_def)
  with d have "map_of (pairs (group_count key ds)) (doc_id g) = Some (doc_count g)"
    by (rule map_of_is_SomeI)
  moreover have "map_of (pairs (group_count key ds)) (doc_id g) =
      (if doc_id g \<in> key ` set ds then Some (length (filter (\<lambda>r. key r = doc_id g) ds)) else None)"
    unfolding group_count_def by (simp add: lookup_foldl pairs_Nil)
  ultimately show ?thesis by (simp split: if_splits)
qed

subsection \<open>Category breakdown\<close>

lemma pie_chart_handler_up:
  "up d \<Longrightarrow> pie_chart_handler d q =
     Json (group_count category (match_month (parseInt_param (q_month q)) (docs d)))"
  by (simp add: pie_chart_handler_def aggregate_def respond_def)

text \<open>
  Claim C9. When the database answers and the \<open>month\<close> parameter reads as the number
  \<open>m\<close>, \<open>/api/pie-chart\<close> answers with a list of \<open>{ _id, count }\<close> documents whose
  \<open>_id\<close>s are pairwise different and are exactly the category strings occurring among
  the records of month \<open>m\<close>; the \<open>count\<close> of each is the number of records of month
  \<open>m\<close> with that very string as category. A category with no record of month \<open>m\<close>
  has no document.
\<close>

theorem pie_chart_one_pair_per_category:
  assumes "up d" and "parseInt_param (q_month q) = Fin (of_nat m)"
  shows "\<exists>res. pie_chart_handler d q = Json res
           \<and> distinct (map doc_id res)
           \<and> set (map doc_id res) = category ` set (in_month m (docs d))
           \<and> (\<forall>g \<in> set res.
                doc_count g = length (filter (\<lambda>r. category r = doc_id g) (in_month m (docs d))))"
proof -
  let ?res = "group_count category (in_month m (docs d))"
  have "pie_chart_handler d q = Json ?res"
    using assms by (simp only: pie_chart_handler_up match_month_nat)
  moreover have "distinct (map doc_id ?res)"
    by (rule distinct_group_count)
  moreover have "set (map doc_id ?res) = category ` set (in_month m (docs d))"
    by (rule ids_group_count)
  moreover have "\<forall>g \<in> set ?res.
      doc_count g = length (filter (\<lambda>r. category r = doc_id g) (in_month m (docs d)))"
    using count_group_count [of _ category "in_month m (docs d)"] by blast
  ultimately show ?thesis by blast
qed

theorem pie_chart_one_pair_per_category_witness:
  "up scenario_db \<and> parseInt_param (q_month (month_query ''3'')) = Fin (of_nat 3)
   \<and> (\<exists>res. pie_chart_handler scenario_db (month_query ''3'') = Json res
          \<and> distinct (map doc_id res)
          \<and> set (map doc_id res) = {''misc''}
          \<and> (\<forall>g \<in> set res. doc_count g = 2))"
proof -
  have recs: "in_month 3 (docs scenario_db) = [sale 1 50 True 3, sale 2 150 False 3]"
    by (simp add: scenario_db_def sale_def)
  have cats: "category ` set [sale 1 50 True 3, sale 2 150 False 3] = {''misc''}"
    by (simp add: sale_def)
  have cnt: "length (filter (\<lambda>r. category r = k) [sale 1 50 True 3, sale 2 150 False 3]) =
      (if k = ''misc'' then 2 else 0)" for k
    by (simp add: sale_def)
  from pie_chart_one_pair_per_category [OF scenario_up scenario_month]
  obtain res where res: "pie_chart_handler scenario_db (month_query ''3'') = Json res"
      "distinct (map doc_id res)"
      "set (map doc_id res) = {''misc''}"
      "\<forall>g \<in> set res. doc_count g = (if doc_id g = ''misc'' then 2 else 0)"
    unfolding recs cats cnt by blast
  from res(3) have "\<forall>g \<in> set res. doc_id g = ''misc''" by auto
  with res(4) have "\<forall>g \<in> set res. doc_count g = 2" by simp
  with res(1,2,3) scenario_up scenario_month show ?thesis by blast
qed

subsection \<open>Price histogram\<close>

lemma length_forEach_index: "length (forEach_index i items result) = length result"
  by (induction items arbitrary: i result) auto

lemma labels_forEach_index:
  "map range_label (forEach_index i items result) = map range_label result"
proof (induction items arbitrary: i result)
  case Nil
  then show ?case by simp
next
  case (Cons item items)
  have "map range_label (if i < length result
      then result[i := (result ! i)\<lparr> count := doc_count item \<rparr>] else result) = map range_label result"
    by (simp add: map_update list_update_same_conv)
  with Cons show ?case by simp
qed

lemma counts_forEach_index:
  "i + length items \<le> length result \<Longrightarrow>
   map count (forEach_index i items result) =
     take i (map count result) @ map doc_count items @ drop (i + length items) (map count result)"
proof (induction items arbitrary: i result)
  case Nil
  then show ?case by simp
next
  case (Cons item items)
  let ?r = "result[i := (result ! i)\<lparr> count := doc_count item \<rparr>]"
  from Cons.prems have i: "i < length result" by simp
  have m: "map count ?r = (map count result)[i := doc_count item]"
    by (simp add: map_update)
  from Cons.prems have "Suc i + length items \<le> length ?r" by simp
  then have "map count (forEach_index (Suc i) items ?r) =
      take (Suc i) (map count ?r) @ map doc_count items @ drop (Suc i + length items) (map count ?r)"
    by (rule Cons.IH)
  also have "take (Suc i) (map count ?r) = take i (map count result) @ [doc_count item]"
    unfolding m using i by (simp add: take_Suc_conv_app_nth)
  also have "drop (Suc i + length items) (map count ?r) = drop (Suc i + length items) (map count result)"
    unfolding m by simp
  finally show ?case using i by simp
qed

lemma sum_insort_key:
  "sum_list (map f (insort_key k x xs)) = f x + sum_list (map f xs)"
  for f :: "'a \<Rightarrow> nat"
  by (induction xs) auto

lemma sum_sort_key: "sum_list (map f (sort_key k xs)) = sum_list (map f xs)"
  for f :: "'a \<Rightarrow> nat"
  by (induction xs) (auto simp: sum_insort_key)

lemma bucket_of_boundaries:
  "bucket_of boundaries v \<in>
     set [Lower 0, Lower 101, Lower 201, Lower 301, Lower 401, Lower 501, Lower 601,
          Lower 701, Lower 801, Default ''901-above'']"
  by (simp add: boundaries_def)

lemma length_bucket_stage: "length (bucket_stage ds) \<le> 10"
proof -
  let ?gs = "group_count (\<lambda>r. bucket_of boundaries (price r)) ds"
  let ?all = "[Lower 0, Lower 101, Lower 201, Lower 301, Lower 401, Lower 501, Lower 601,
          Lower 701, Lower 801, Default ''901-above'']"
  have "set (map doc_id ?gs) \<subseteq> set ?all"
    unfolding ids_group_count using bucket_of_boundaries by blast
  then have "card (set (map doc_id ?gs)) \<le> card (set ?all)"
    by (intro card_mono) simp_all
  also have "\<dots> \<le> length ?all" by (rule card_length)
  finally have "card (set (map doc_id ?gs)) \<le> 10" by simp
  moreover have "card (set (map doc_id ?gs)) = length (map doc_id ?gs)"
    by (rule distinct_card) (rule distinct_group_count)
  ultimately show ?thesis by (simp add: bucket_stage_def)
qed

lemma sum_bucket_stage: "sum_list (map doc_count (bucket_stage ds)) = length ds"
  by (simp add: bucket_stage_def sum_sort_key sum_group_count)

lemma bar_chart_handler_up:
  "up d \<Longrightarrow> bar_chart_handler d q =
     Json (forEach_index 0 (bucket_stage (match_month (parseInt_param (q_month q)) (docs d))) initial_result)"
  by (simp add: bar_chart_handler_def aggregate_def respond_def)

lemma initial_counts: "map count initial_result = replicate 10 0"
  by (simp add: initial_result_def numeral_eq_Suc)

text \<open>
  Claim C4. When the database answers and the \<open>month\<close> parameter reads as the number
  \<open>m\<close>, \<open>/api/bar-chart\<close> answers with the ten labelled entries, and their
  \<open>count\<close> fields add up to the number of records of month \<open>m\<close>: every such record is counted once, the
  default bucket taking those that no pair of boundaries encloses.
\<close>

theorem bar_chart_counts_sum_to_total:
  assumes "up d" and "parseInt_param (q_month q) = Fin (of_nat m)"
  shows "\<exists>res. bar_chart_handler d q = Json res
           \<and> length res = 10
           \<and> map range_label res = map range_label initial_result
           \<and> sum_list (map count res) = length (in_month m (docs d))"
proof -
  let ?data = "bucket_stage (in_month m (docs d))"
  let ?res = "forEach_index 0 ?data initial_result"
  have h: "bar_chart_handler d q = Json ?res"
    using assms by (simp only: bar_chart_handler_up match_month_nat)
  have len: "length ?res = 10"
    by (simp add: length_forEach_index initial_result_def)
  have "0 + length ?data \<le> length initial_result"
    using length_bucket_stage [of "in_month m (docs d)"] by (simp add: initial_result_def)
  then have "map count ?res =
      take 0 (map count initial_result) @ map doc_count ?data
        @ drop (0 + length ?data) (map count initial_result)"
    by (rule counts_forEach_index)
  then have "sum_list (map count ?res) = sum_list (map doc_count ?data)"
    by (simp add: initial_counts)
  then have "sum_list (map count ?res) = length (in_month m (docs d))"
    by (simp only: sum_bucket_stage)
  moreover have "map range_label ?res = map range_label initial_result"
    by (rule labels_forEach_index)
  ultimately show ?thesis using h len by blast
qed

theorem bar_chart_counts_sum_to_total_witness:
  "up scenario_db \<and> parseInt_param (q_month (month_query ''3'')) = Fin (of_nat 3)
   \<and> (\<exists>res. bar_chart_handler scenario_db (month_query ''3'') = Json res
          \<and> length res = 10 \<and> sum_list (map count res) = 2)"
proof -
  have len: "length (in_month 3 (docs scenario_db)) = 2"
    by (simp add: scenario_db_def sale_def)
  from bar_chart_counts_sum_to_total [OF scenario_up scenario_month, unfolded len]
    scenario_up scenario_month
  show ?thesis by blast
qed

text \<open>
  Claim C1 says that the entry labelled \<open>0 - 100\<close> counts the records of the month
  with a price from 0 up to, not including, 101, and the entry \<open>101 - 200\<close> those from
  101 on. With a single record in March, of price 150, the only output document of
  \<open>$bucket\<close> is the one of the bucket from 101, and the handler writes its count to
  position 0: the entry \<open>0 - 100\<close> has count 1 and the entry \<open>101 - 200\<close> count 0,
  while no record of the month has a price below 101 and one has a price from 101 up
  to, not including, 201.
\<close>

theorem bar_chart_single_record_of_price_150:
  "bar_chart_handler single_150_db (month_query ''3'') =
     Json [\<lparr> range_label = ''0 - 100'', count = 1 \<rparr>,
           \<lparr> range_label = ''101 - 200'', count = 0 \<rparr>,
           \<lparr> range_label = ''201 - 300'', count = 0 \<rparr>,
           \<lparr> range_label = ''301 - 400'', count = 0 \<rparr>,
           \<lparr> range_label = ''401 - 500'', count = 0 \<rparr>,
           \<lparr> range_label = ''501 - 600'', count = 0 \<rparr>,
           \<lparr> range_label = ''601 - 700'', count = 0 \<rparr>,
           \<lparr> range_label = ''701 - 800'', count = 0 \<rparr>,
           \<lparr> range_label = ''801 - 900'', count = 0 \<rparr>,
           \<lparr> range_label = ''901 - above'', count = 0 \<rparr>]
   \<and> length (filter (\<lambda>r. 0 \<le> price r \<and> price r < 101) (in_month 3 (docs single_150_db))) = 0
   \<and> length (filter (\<lambda>r. 101 \<le> price r \<and> price r < 201) (in_month 3 (docs single_150_db))) = 1"
proof -
  have m: "match_month (parseInt_param (q_month (month_query ''3''))) (docs single_150_db) = [sale 1 150 True 3]"
    by (simp add: scenario_month match_month_def month_eq_def single_150_db_def sale_def)
  have b: "bucket_stage [sale 1 150 True 3] = [\<lparr> doc_id = Lower 101, doc_count = 1 \<rparr>]"
    by (simp add: bucket_stage_def group_count_def boundaries_def sale_def)
  have u: "up single_150_db" by (simp add: single_150_db_def)
  have h: "bar_chart_handler single_150_db (month_query ''3'') =
     Json (forEach_index 0 [\<lparr> doc_id = Lower 101, doc_count = 1 \<rparr>] initial_result)"
    by (simp only: bar_chart_handler_up [OF u] m b)
  have c: "length (filter (\<lambda>r. 0 \<le> price r \<and> price r < 101) (in_month 3 (docs single_150_db))) = 0"
    "length (filter (\<lambda>r. 101 \<le> price r \<and> price r < 201) (in_month 3 (docs single_150_db))) = 1"
    by (simp_all add: single_150_db_def sale_def)
  show ?thesis
    unfolding h c by (simp add: initial_result_def)
qed

section \<open>Properties of the filtered listing\<close>

subsection \<open>The query as a predicate of the request\<close>

lemma matches_explicit:
  "matches (build_query q) r =
     (when_given (q_month q) (\<lambda>m. month_eq (parseInt m) r)
      \<and> when_given (q_search q) (\<lambda>s. regex_i s (title r) \<or> regex_i s (description r)
                                      \<or> Fin (price r) = or_zero (parseFloat s)))"
  by (auto simp: matches_def build_query_def when_given_def truthy_def parseInt_param_def
      split: option.splits)

lemma castable_readable:
  "when_given (q_month q) (\<lambda>m. parseInt m \<noteq> NaN) \<Longrightarrow> castable (build_query q)"
  by (auto simp: castable_def build_query_def when_given_def truthy_def parseInt_param_def
      split: option.splits if_splits)

lemma modelled_no_search: "q_search q = None \<Longrightarrow> modelled (build_query q)"
  by (simp add: modelled_def build_query_def)

subsection \<open>Search texts without metacharacters\<close>

lemma atoms_of_plain: "list_all (\<lambda>c. \<not> is_meta c) p \<Longrightarrow> atoms_of p = map Lit p"
  by (induction p) (auto simp: atoms_of_def is_meta_def)

lemma match_here_literals: "match_here (map Lit p) s = prefix (map lower p) (map lower s)"
proof (induction p arbitrary: s)
  case Nil
  then show ?case by simp
next
  case (Cons a p)
  then show ?case by (cases s) auto
qed

lemma regex_test_literals: "regex_test (map Lit p) s = sublist (map lower p) (map lower s)"
proof (induction s)
  case Nil
  then show ?case by (cases p) simp_all
next
  case (Cons c s)
  have "regex_test (map Lit p) (c # s) =
      (prefix (map lower p) (map lower (c # s)) \<or> sublist (map lower p) (map lower s))"
    by (simp only: regex_test.simps match_here_literals Cons.IH)
  then show ?case by (simp add: sublist_Cons_right)
qed

lemma regex_i_plain:
  "list_all (\<lambda>c. \<not> is_meta c) p \<Longrightarrow> regex_i p s = contains_ci s p"
  by (simp add: regex_i_def atoms_of_plain regex_test_literals contains_ci_def)

lemma numeric_parse_or_zero: "numeric_parse s = or_zero (parseFloat s)"
  by (simp add: numeric_parse_def or_zero_def split: number.splits)

lemma plain_in_fragment: "list_all (\<lambda>c. \<not> is_meta c) p \<Longrightarrow> in_fragment p"
  by (induction p) (auto simp: in_fragment_def)

lemma modelled_plain:
  "when_given (q_search q) (list_all (\<lambda>c. \<not> is_meta c)) \<Longrightarrow> modelled (build_query q)"
  by (auto simp: modelled_def build_query_def when_given_def plain_in_fragment
      split: option.splits if_splits)

lemma matches_plain:
  assumes "when_given (q_search q) (list_all (\<lambda>c. \<not> is_meta c))"
  shows "matches (build_query q) r = substring_filter (q_month q) (q_search q) r"
  using assms
  by (auto simp: matches_explicit substring_filter_def when_given_def month_eq_def regex_i_plain
      numeric_parse_or_zero split: option.splits if_splits)

lemma select_plain:
  assumes "when_given (q_search q) (list_all (\<lambda>c. \<not> is_meta c))"
  shows "select (build_query q) ds = filter (substring_filter (q_month q) (q_search q)) ds"
  unfolding select_def by (rule filter_cong) (simp_all add: matches_plain [OF assms])

subsection \<open>The answer for a page\<close>

lemma is_whole_of_nat: "is_whole (of_nat k)"
  by (simp add: is_whole_def)

lemma skip_value:
  "1 \<le> p \<Longrightarrow> js_mul (js_sub (Fin (of_nat p)) (Fin 1)) (Fin (of_nat n)) = Fin (of_nat ((p - 1) * n))"
  by simp

lemma find_page:
  assumes "up d" and "castable qu" and "modelled qu" and "1 \<le> n"
  shows "find d qu (Fin (of_nat k)) (Fin (of_nat n)) = Inr (take n (drop k (select qu (docs d))))"
  using assms by (simp add: find_def is_whole_of_nat)

lemma transactions_handler_page:
  assumes "up d" and "castable (build_query q)" and "modelled (build_query q)" and "paging q p n"
  shows "transactions_handler d q =
           Json \<lparr> transactions = take n (drop ((p - 1) * n) (select (build_query q) (docs d))),
                  total_count = length (select (build_query q) (docs d)),
                  page = int_of_param 1 (q_page q),
                  perPage = Fin (of_nat n),
                  totalPages =
                    Fin (of_int \<lceil>(of_nat (length (select (build_query q) (docs d))) :: rat)
                                 / of_nat n\<rceil>) \<rparr>"
proof -
  from assms(4) have p: "1 \<le> p" and n: "1 \<le> n"
    and pg: "num_of_param 1 (q_page q) = Fin (of_nat p)"
    and per: "num_of_param 10 (q_perPage q) = Fin (of_nat n)"
    and lim: "int_of_param 10 (q_perPage q) = Fin (of_nat n)"
    by (simp_all add: paging_def)
  have f: "find d (build_query q) (js_mul (js_sub (Fin (of_nat p)) (Fin 1)) (Fin (of_nat n))) (Fin (of_nat n)) =
      Inr (take n (drop ((p - 1) * n) (select (build_query q) (docs d))))"
    unfolding skip_value [OF p] using assms(1,2,3) n by (rule find_page)
  have c: "countDocuments d (build_query q) = Inr (length (select (build_query q) (docs d)))"
    using assms(1,2,3) by (simp add: countDocuments_def)
  from n have n0: "0 < n" by simp
  show ?thesis
    unfolding transactions_handler_def Let_def pg per lim f c
    using n0 by (simp add: respond_def)
qed

lemma listing_plain_page:
  assumes "up d"
    and "when_given (q_month q) (\<lambda>m. parseInt m \<noteq> NaN)"
    and "when_given (q_search q) (list_all (\<lambda>c. \<not> is_meta c))"
    and "paging q p n"
  shows "transactions_handler d q =
           Json \<lparr> transactions =
                    take n (drop ((p - 1) * n)
                      (filter (substring_filter (q_month q) (q_search q)) (docs d))),
                  total_count = length (filter (substring_filter (q_month q) (q_search q)) (docs d)),
                  page = int_of_param 1 (q_page q),
                  perPage = Fin (of_nat n),
                  totalPages =
                    Fin (of_int \<lceil>(of_nat (length (filter (substring_filter (q_month q) (q_search q))
                                                     (docs d))) :: rat)
                                 / of_nat n\<rceil>) \<rparr>"
  unfolding transactions_handler_page
      [OF assms(1) castable_readable [OF assms(2)] modelled_plain [OF assms(3)] assms(4)]
    select_plain [OF assms(3)]
  by (rule refl)

lemma beyond_last_page:
  assumes "1 \<le> n" and "\<lceil>(of_nat t :: rat) / of_nat n\<rceil> < int p"
  shows "t \<le> (p - 1) * n"
proof -
  from assms(2) have "\<lceil>(of_nat t :: rat) / of_nat n\<rceil> \<le> int (p - 1)" by linarith
  then have "(of_nat t :: rat) / of_nat n \<le> of_nat (p - 1)"
    by (simp add: ceiling_le_iff)
  with assms(1) have "(of_nat t :: rat) \<le> of_nat (p - 1) * of_nat n"
    by (simp add: divide_le_eq)
  then have "(of_nat t :: rat) \<le> of_nat ((p - 1) * n)" by simp
  then show ?thesis by (simp only: of_nat_le_iff)
qed

text \<open>
  A month text that does not read as a number makes the query fail its cast, and the
  listing answers with status 500.
\<close>

lemma listing_month_not_a_number:
  "transactions_handler scenario_db (month_query ''abc'') = Status500 ''Failed to fetch transactions''"
proof -
  have "parseInt ''abc'' = NaN" by code_simp
  then have "\<not> castable (build_query (month_query ''abc''))"
    by (simp add: castable_def build_query_def month_query_def truthy_def parseInt_param_def)
  then show ?thesis
    by (simp add: transactions_handler_def Let_def find_def respond_def)
qed

subsection \<open>Example requests\<close>

lemma toNumber_1: "toNumber ''1'' = Fin 1"
  by code_simp

lemma toNumber_2: "toNumber ''2'' = Fin 2"
  by code_simp

lemma toNumber_5: "toNumber ''5'' = Fin 5"
  by code_simp

lemma toNumber_10: "toNumber ''10'' = Fin 10"
  by code_simp

lemma parseInt_1: "parseInt ''1'' = Fin 1"
  by code_simp

lemma parseInt_2: "parseInt ''2'' = Fin 2"
  by code_simp

lemma parseInt_10: "parseInt ''10'' = Fin 10"
  by code_simp

lemma parseFloat_150: "parseFloat ''150'' = Fin 150"
  by code_simp

lemma parseFloat_abc: "parseFloat ''abc'' = NaN"
  by code_simp

lemma parseFloat_dot: "parseFloat ''.'' = NaN"
  by code_simp

lemma paging_1_2: "paging (listing_query s ''1'' ''2'') 1 2"
  by (simp add: paging_def listing_query_def num_of_param_def int_of_param_def toNumber_1 toNumber_2
      parseInt_2)

lemma paging_2_2: "paging (listing_query s ''2'' ''2'') 2 2"
  by (simp add: paging_def listing_query_def num_of_param_def int_of_param_def toNumber_2 parseInt_2)

lemma paging_5_10: "paging (listing_query s ''5'' ''10'') 5 10"
  by (simp add: paging_def listing_query_def num_of_param_def int_of_param_def toNumber_5 toNumber_10
      parseInt_10)

lemma paging_default: "paging (search_query s) 1 10"
  by (simp add: paging_def search_query_def num_of_param_def int_of_param_def)

lemma twelve_up: "up twelve_db"
  by (simp add: twelve_db_def)

lemma listing_query_month: "when_given (q_month (listing_query s a b)) (\<lambda>m. parseInt m \<noteq> NaN)"
  by (simp add: listing_query_def when_given_def)

lemma plain_150: "when_given (q_search (search_query ''150'')) (list_all (\<lambda>c. \<not> is_meta c))"
  by (simp add: search_query_def when_given_def is_meta_def)

lemma plain_item:
  "when_given (q_search (listing_query ''item'' a b)) (list_all (\<lambda>c. \<not> is_meta c))"
  by (simp add: listing_query_def when_given_def is_meta_def)

lemma plain_ITEM:
  "when_given (q_search (listing_query ''ITEM'' a b)) (list_all (\<lambda>c. \<not> is_meta c))"
  by (simp add: listing_query_def when_given_def is_meta_def)

lemma contains_item: "contains_ci ''item'' ''item''" "contains_ci ''item'' ''ITEM''"
  by code_simp+

lemma contains_no_150: "\<not> contains_ci ''item'' ''150''" "\<not> contains_ci ''thing'' ''150''"
  by (simp_all add: contains_ci_def sublist_Cons_right lower_def)

lemma contains_no_dot: "\<not> contains_ci ''item'' ''.''" "\<not> contains_ci ''thing'' ''.''"
  by (simp_all add: contains_ci_def sublist_Cons_right lower_def)

text \<open>The search text \<open>ITEM\<close> is contained, in lower case, in every title of the examples.\<close>

lemma substring_ITEM: "substring_filter None (Some ''ITEM'') (sale i p s m)"
  by (simp add: substring_filter_def when_given_def sale_def contains_item)

lemma substring_item: "substring_filter None (Some ''item'') (sale i p s m)"
  by (simp add: substring_filter_def when_given_def sale_def contains_item)

lemma scenario_ITEM:
  "filter (substring_filter (q_month (listing_query ''ITEM'' a b)) (q_search (listing_query ''ITEM'' a b)))
     (docs scenario_db) = [sale 1 50 True 3, sale 2 150 False 3, sale 3 950 True 4]"
  by (simp add: listing_query_def scenario_db_def substring_ITEM)

lemma twelve_item:
  "filter (substring_filter (q_month (listing_query ''item'' a b)) (q_search (listing_query ''item'' a b)))
     (docs twelve_db) = replicate 12 (sale 1 50 True 3)"
  by (simp add: listing_query_def twelve_db_def substring_item)

text \<open>
  The search text \<open>.\<close>: as a regular expression it matches every title of the
  scenario; as a substring it is in no title and no description, and it parses to 0,
  which is no price of the scenario.
\<close>

lemma dot_matches:
  assumes "q_month q = None" and "q_search q = Some ''.''"
  shows "matches (build_query q) (sale i p s m)"
  by (simp add: matches_explicit assms when_given_def regex_i_def atoms_of_def sale_def)

lemma dot_select:
  assumes "q_month q = None" and "q_search q = Some ''.''"
  shows "select (build_query q) (docs scenario_db) =
           [sale 1 50 True 3, sale 2 150 False 3, sale 3 950 True 4]"
  by (simp add: select_def scenario_db_def dot_matches [OF assms])

lemma dot_modelled: "q_search q = Some ''.'' \<Longrightarrow> modelled (build_query q)"
  by (simp add: modelled_def build_query_def in_fragment_def)

lemma dot_castable: "q_month q = None \<Longrightarrow> castable (build_query q)"
  by (simp add: castable_def build_query_def truthy_def)

lemma dot_no_substring:
  "0 < p \<Longrightarrow> \<not> substring_filter None (Some ''.'') (sale i p s m)"
  using contains_no_dot
  by (simp add: substring_filter_def when_given_def sale_def numeric_parse_def parseFloat_dot)

lemma dot_filter_empty: "filter (substring_filter None (Some ''.'')) (docs scenario_db) = []"
  by (simp add: scenario_db_def dot_no_substring)

lemma ceiling_3_2: "\<lceil>(3::rat) / 2\<rceil> = 2"
  by (rule ceiling_unique) simp_all

lemma ceiling_3_10: "\<lceil>(3::rat) / 10\<rceil> = 1"
  by (rule ceiling_unique) simp_all

subsection \<open>The selected records\<close>

text \<open>
  Claim C3, amended. For a search text without a metacharacter of regular expressions
  (or none), the query of the listing is within the model, and a record is among the
  records it selects exactly when it is a stored record whose month of sale equals the
  month, when provided, and whose title or description contain the search text, when
  provided, as a substring in any letter case, or whose price equals the numeric parse
  of the search text. A search text that does not parse as a number has numeric parse
  0, so that the price equals it only when the price is 0.
\<close>

theorem listing_matches_plain_search:
  assumes "when_given (q_search q) (list_all (\<lambda>c. \<not> is_meta c))"
  shows "modelled (build_query q)
         \<and> (r \<in> set (select (build_query q) ds)
              \<longleftrightarrow> r \<in> set ds \<and> substring_filter (q_month q) (q_search q) r)
         \<and> (parseFloat s = NaN \<longrightarrow> (Fin (price r) = numeric_parse s \<longleftrightarrow> price r = 0))"
proof -
  have "modelled (build_query q)"
    using assms by (rule modelled_plain)
  moreover have "r \<in> set (select (build_query q) ds)
      \<longleftrightarrow> r \<in> set ds \<and> substring_filter (q_month q) (q_search q) r"
    by (simp add: select_plain [OF assms])
  moreover have "parseFloat s = NaN \<longrightarrow> (Fin (price r) = numeric_parse s \<longleftrightarrow> price r = 0)"
    by (simp add: numeric_parse_def)
  ultimately show ?thesis by blast
qed

theorem listing_matches_plain_search_witness:
  "when_given (q_search (search_query ''150'')) (list_all (\<lambda>c. \<not> is_meta c))
   \<and> modelled (build_query (search_query ''150''))
   \<and> sale 2 150 False 3 \<in> set (select (build_query (search_query ''150'')) (docs scenario_db))
   \<and> sale 1 50 True 3 \<notin> set (select (build_query (search_query ''150'')) (docs scenario_db))
   \<and> (Fin (price (sale 1 50 True 3)) = numeric_parse ''abc'' \<longleftrightarrow> price (sale 1 50 True 3) = 0)"
proof -
  note t = listing_matches_plain_search [OF plain_150]
  have a: "substring_filter (q_month (search_query ''150'')) (q_search (search_query ''150''))
      (sale 2 150 False 3)"
    by (simp add: substring_filter_def search_query_def when_given_def sale_def numeric_parse_def
        parseFloat_150)
  have b: "\<not> substring_filter (q_month (search_query ''150'')) (q_search (search_query ''150''))
      (sale 1 50 True 3)"
    using contains_no_150
    by (simp add: substring_filter_def search_query_def when_given_def sale_def numeric_parse_def
        parseFloat_150)
  have m: "sale 2 150 False 3 \<in> set (docs scenario_db)"
    by (simp add: scenario_db_def)
  from t [of "sale 2 150 False 3" "docs scenario_db" "''abc''"] a m
  have 1: "sale 2 150 False 3 \<in> set (select (build_query (search_query ''150'')) (docs scenario_db))"
    by blast
  from t [of "sale 1 50 True 3" "docs scenario_db" "''abc''"] b
  have 2: "sale 1 50 True 3 \<notin> set (select (build_query (search_query ''150'')) (docs scenario_db))"
    by blast
  from t [of "sale 1 50 True 3" "docs scenario_db" "''abc''"] parseFloat_abc
  have 3: "Fin (price (sale 1 50 True 3)) = numeric_parse ''abc'' \<longleftrightarrow> price (sale 1 50 True 3) = 0"
    and 4: "modelled (build_query (search_query ''150''))"
    by blast+
  from plain_150 4 1 2 3 show ?thesis by blast
qed

text \<open>
  Claim C3 as stated fails for the search text \<open>.\<close>: as a regular expression it
  matches every non-empty title, so the listing selects the three records of the
  scenario, none of which has a dot in title or description or the price 0.
\<close>

theorem listing_dot_search_counterexample:
  "transactions_handler scenario_db (search_query ''.'') =
     Json \<lparr> transactions = [sale 1 50 True 3, sale 2 150 False 3, sale 3 950 True 4],
            total_count = 3, page = Fin 1, perPage = Fin 10, totalPages = Fin 1 \<rparr>
   \<and> sale 1 50 True 3 \<in> set (select (build_query (search_query ''.'')) (docs scenario_db))
   \<and> \<not> substring_filter (q_month (search_query ''.'')) (q_search (search_query ''.''))
         (sale 1 50 True 3)"
proof -
  have mo: "q_month (search_query ''.'') = None" and se: "q_search (search_query ''.'') = Some ''.''"
    by (simp_all add: search_query_def)
  note sel = dot_select [OF mo se]
  have h: "transactions_handler scenario_db (search_query ''.'') =
     Json \<lparr> transactions = [sale 1 50 True 3, sale 2 150 False 3, sale 3 950 True 4],
            total_count = 3, page = Fin 1, perPage = Fin 10, totalPages = Fin 1 \<rparr>"
    unfolding transactions_handler_page
        [OF scenario_up dot_castable [OF mo] dot_modelled [OF se] paging_default] sel
    by (simp add: ceiling_3_10 search_query_def int_of_param_def)
  have n: "\<not> substring_filter (q_month (search_query ''.'')) (q_search (search_query ''.''))
         (sale 1 50 True 3)"
    unfolding mo se by (rule dot_no_substring) simp
  from h sel n show ?thesis by simp
qed

subsection \<open>The total\<close>

text \<open>
  Claim C7, amended. When the database answers, the month, when provided, reads as a
  number, the search text, when provided, has no metacharacter of regular expressions,
  and the request asks for page \<open>p\<close> of size \<open>n\<close>, both at least 1, the listing
  answers with \<open>total\<close> the number of stored records whose month of sale equals the
  month, when provided, and whose title or description contain the search text, when
  provided, as a substring in any letter case, or whose price equals its numeric parse.
  A second request with the same month and search text, asking for page \<open>p'\<close> of size
  \<open>n'\<close>, is answered with the same \<open>total\<close>.
\<close>

theorem listing_total_plain_search:
  assumes "up d"
    and "when_given (q_month q) (\<lambda>m. parseInt m \<noteq> NaN)"
    and "when_given (q_search q) (list_all (\<lambda>c. \<not> is_meta c))"
    and "paging q p n"
    and "q_month q' = q_month q" and "q_search q' = q_search q" and "paging q' p' n'"
  shows "\<exists>resp resp'.
           transactions_handler d q = Json resp \<and> transactions_handler d q' = Json resp'
           \<and> total_count resp = length (filter (substring_filter (q_month q) (q_search q)) (docs d))
           \<and> total_count resp' = total_count resp"
proof -
  from assms(2,5) have mo': "when_given (q_month q') (\<lambda>m. parseInt m \<noteq> NaN)" by simp
  from assms(3,6) have se': "when_given (q_search q') (list_all (\<lambda>c. \<not> is_meta c))" by simp
  note h = listing_plain_page [OF assms(1,2,3,4)]
  note h' = listing_plain_page [OF assms(1) mo' se' assms(7)]
  show ?thesis unfolding h h' by (simp add: assms(5,6))
qed

theorem listing_total_plain_search_witness:
  "up scenario_db
   \<and> when_given (q_month (listing_query ''ITEM'' ''1'' ''2'')) (\<lambda>m. parseInt m \<noteq> NaN)
   \<and> when_given (q_search (listing_query ''ITEM'' ''1'' ''2'')) (list_all (\<lambda>c. \<not> is_meta c))
   \<and> paging (listing_query ''ITEM'' ''1'' ''2'') 1 2
   \<and> q_month (listing_query ''ITEM'' ''2'' ''2'') = q_month (listing_query ''ITEM'' ''1'' ''2'')
   \<and> q_search (listing_query ''ITEM'' ''2'' ''2'') = q_search (listing_query ''ITEM'' ''1'' ''2'')
   \<and> paging (listing_query ''ITEM'' ''2'' ''2'') 2 2
   \<and> (\<exists>resp resp'.
         transactions_handler scenario_db (listing_query ''ITEM'' ''1'' ''2'') = Json resp
         \<and> transactions_handler scenario_db (listing_query ''ITEM'' ''2'' ''2'') = Json resp'
         \<and> total_count resp = 3 \<and> total_count resp' = total_count resp)"
proof -
  have m: "q_month (listing_query ''ITEM'' ''2'' ''2'') = q_month (listing_query ''ITEM'' ''1'' ''2'')"
    and s: "q_search (listing_query ''ITEM'' ''2'' ''2'') = q_search (listing_query ''ITEM'' ''1'' ''2'')"
    by (simp_all add: listing_query_def)
  have len: "length (filter (substring_filter (q_month (listing_query ''ITEM'' ''1'' ''2''))
      (q_search (listing_query ''ITEM'' ''1'' ''2''))) (docs scenario_db)) = 3"
    by (simp only: scenario_ITEM) simp
  from listing_total_plain_search
      [OF scenario_up listing_query_month plain_ITEM paging_1_2 m s paging_2_2, unfolded len]
    scenario_up listing_query_month plain_ITEM paging_1_2 m s paging_2_2
  show ?thesis by blast
qed

text \<open>
  Claim C7 as stated fails for the search text \<open>.\<close>: the listing answers with
  \<open>total\<close> 3, while no record of the scenario satisfies the filter predicate.
\<close>

theorem listing_total_dot_counterexample:
  "transactions_handler scenario_db (listing_query ''.'' ''1'' ''2'') =
     Json \<lparr> transactions = [sale 1 50 True 3, sale 2 150 False 3],
            total_count = 3, page = Fin 1, perPage = Fin 2, totalPages = Fin 2 \<rparr>
   \<and> length (filter (substring_filter (q_month (listing_query ''.'' ''1'' ''2''))
                (q_search (listing_query ''.'' ''1'' ''2''))) (docs scenario_db)) = 0"
proof -
  have mo: "q_month (listing_query ''.'' ''1'' ''2'') = None"
    and se: "q_search (listing_query ''.'' ''1'' ''2'') = Some ''.''"
    by (simp_all add: listing_query_def)
  have h: "transactions_handler scenario_db (listing_query ''.'' ''1'' ''2'') =
     Json \<lparr> transactions = [sale 1 50 True 3, sale 2 150 False 3],
            total_count = 3, page = Fin 1, perPage = Fin 2, totalPages = Fin 2 \<rparr>"
    unfolding transactions_handler_page
        [OF scenario_up dot_castable [OF mo] dot_modelled [OF se] paging_1_2] dot_select [OF mo se]
    by (simp add: ceiling_3_2 listing_query_def int_of_param_def parseInt_1)
  have "length (filter (substring_filter (q_month (listing_query ''.'' ''1'' ''2''))
                (q_search (listing_query ''.'' ''1'' ''2''))) (docs scenario_db)) = 0"
    unfolding mo se dot_filter_empty by simp
  with h show ?thesis by (rule conjI)
qed

subsection \<open>The page\<close>

text \<open>
  Claim C8, amended. Under the same conditions on month, search text, \<open>p\<close> and \<open>n\<close>,
  the listing answers with the stored records that satisfy that filter predicate, in
  storage order, without the first \<open>(p - 1) * n\<close> and cut after \<open>n\<close>; \<open>totalPages\<close>
  is the ceiling of \<open>total / n\<close>; and when \<open>p\<close> exceeds it the list of records is
  empty.
\<close>

theorem listing_page_plain_search:
  assumes "up d"
    and "when_given (q_month q) (\<lambda>m. parseInt m \<noteq> NaN)"
    and "when_given (q_search q) (list_all (\<lambda>c. \<not> is_meta c))"
    and "paging q p n"
  shows "\<exists>resp. transactions_handler d q = Json resp
           \<and> transactions resp =
               take n (drop ((p - 1) * n)
                 (filter (substring_filter (q_month q) (q_search q)) (docs d)))
           \<and> length (transactions resp) \<le> n
           \<and> total_count resp = length (filter (substring_filter (q_month q) (q_search q)) (docs d))
           \<and> totalPages resp = Fin (of_int \<lceil>(of_nat (total_count resp) :: rat) / of_nat n\<rceil>)
           \<and> (\<lceil>(of_nat (total_count resp) :: rat) / of_nat n\<rceil> < int p \<longrightarrow> transactions resp = [])"
proof -
  let ?ms = "filter (substring_filter (q_month q) (q_search q)) (docs d)"
  from assms(4) have n: "1 \<le> n" by (simp add: paging_def)
  let ?resp = "\<lparr> transactions = take n (drop ((p - 1) * n) ?ms),
                  total_count = length ?ms,
                  page = int_of_param 1 (q_page q),
                  perPage = Fin (of_nat n),
                  totalPages = Fin (of_int \<lceil>(of_nat (length ?ms) :: rat) / of_nat n\<rceil>) \<rparr>"
  have h: "transactions_handler d q = Json ?resp"
    by (rule listing_plain_page [OF assms])
  have e: "\<lceil>(of_nat (total_count ?resp) :: rat) / of_nat n\<rceil> < int p \<longrightarrow> transactions ?resp = []"
  proof
    assume "\<lceil>(of_nat (total_count ?resp) :: rat) / of_nat n\<rceil> < int p"
    then have "\<lceil>(of_nat (length ?ms) :: rat) / of_nat n\<rceil> < int p" by simp
    with n have "length ?ms \<le> (p - 1) * n" by (rule beyond_last_page)
    then have "drop ((p - 1) * n) ?ms = []" by simp
    then have "take n (drop ((p - 1) * n) ?ms) = []" by (simp only: take_Nil)
    then show "transactions ?resp = []" by simp
  qed
  have "transactions ?resp = take n (drop ((p - 1) * n) ?ms)" by simp
  moreover have "length (transactions ?resp) \<le> n" by simp
  moreover have "total_count ?resp = length ?ms" by simp
  moreover have "totalPages ?resp = Fin (of_int \<lceil>(of_nat (total_count ?resp) :: rat) / of_nat n\<rceil>)" by simp
  ultimately show ?thesis using h e by blast
qed

theorem listing_page_plain_search_witness:
  "up twelve_db
   \<and> when_given (q_month (listing_query ''item'' ''5'' ''10'')) (\<lambda>m. parseInt m \<noteq> NaN)
   \<and> when_given (q_search (listing_query ''item'' ''5'' ''10'')) (list_all (\<lambda>c. \<not> is_meta c))
   \<and> paging (listing_query ''item'' ''5'' ''10'') 5 10
   \<and> (\<exists>resp. transactions_handler twelve_db (listing_query ''item'' ''5'' ''10'') = Json resp
          \<and> transactions resp = [] \<and> total_count resp = 12 \<and> totalPages resp = Fin 2)"
proof -
  from listing_page_plain_search [OF twelve_up listing_query_month plain_item paging_5_10]
  obtain resp where r: "transactions_handler twelve_db (listing_query ''item'' ''5'' ''10'') = Json resp"
    "transactions resp = take 10 (drop ((5 - 1) * 10) (replicate 12 (sale 1 50 True 3)))"
    "total_count resp = length (replicate 12 (sale 1 50 True 3))"
    "totalPages resp = Fin (of_int \<lceil>(of_nat (total_count resp) :: rat) / of_nat 10\<rceil>)"
    unfolding twelve_item by blast
  from r(2) have e: "transactions resp = []" by simp
  from r(3) have t: "total_count resp = 12" by simp
  have c: "\<lceil>(of_nat 12 :: rat) / of_nat 10\<rceil> = 2"
    by (rule ceiling_unique) simp_all
  from r(4) have "totalPages resp = Fin 2" unfolding t c by simp
  with e t r(1) twelve_up listing_query_month plain_item paging_5_10 show ?thesis by blast
qed

text \<open>
  Claim C8 as stated fails for the search text \<open>.\<close>: page 2 of size 2 holds the
  third record of the scenario, while the records that satisfy the filter predicate,
  sliced in the same way, are none.
\<close>

theorem listing_page_dot_counterexample:
  "transactions_handler scenario_db (listing_query ''.'' ''2'' ''2'') =
     Json \<lparr> transactions = [sale 3 950 True 4],
            total_count = 3, page = Fin 2, perPage = Fin 2, totalPages = Fin 2 \<rparr>
   \<and> take 2 (drop ((2 - 1) * 2)
        (filter (substring_filter (q_month (listing_query ''.'' ''2'' ''2''))
           (q_search (listing_query ''.'' ''2'' ''2''))) (docs scenario_db))) = []"
proof -
  have mo: "q_month (listing_query ''.'' ''2'' ''2'') = None"
    and se: "q_search (listing_query ''.'' ''2'' ''2'') = Some ''.''"
    by (simp_all add: listing_query_def)
  have h: "transactions_handler scenario_db (listing_query ''.'' ''2'' ''2'') =
     Json \<lparr> transactions = [sale 3 950 True 4],
            total_count = 3, page = Fin 2, perPage = Fin 2, totalPages = Fin 2 \<rparr>"
    unfolding transactions_handler_page
        [OF scenario_up dot_castable [OF mo] dot_modelled [OF se] paging_2_2] dot_select [OF mo se]
    by (simp add: ceiling_3_2 listing_query_def int_of_param_def parseInt_2)
  have "take 2 (drop ((2 - 1) * 2)
        (filter (substring_filter (q_month (listing_query ''.'' ''2'' ''2''))
           (q_search (listing_query ''.'' ''2'' ''2''))) (docs scenario_db))) = []"
    unfolding mo se dot_filter_empty by simp
  with h show ?thesis by (rule conjI)
qed

section \<open>Properties of the combined view\<close>

lemma month_param_given:
  assumes "parseInt_param mo = Fin (of_nat m)"
  shows "\<exists>s. mo = Some s \<and> s \<noteq> [] \<and> parseInt s = Fin (of_nat m)"
proof (cases mo)
  case None
  have "parseInt ''undefined'' = NaN" by code_simp
  with None assms show ?thesis by (simp add: parseInt_param_def)
next
  case (Some s)
  have "parseInt [] = NaN" by code_simp
  with Some assms show ?thesis by (cases "s = []") (simp_all add: parseInt_param_def)
qed

lemma select_sub_query:
  assumes "parseInt_param (q_month q) = Fin (of_nat m)"
  shows "select (build_query (sub_query q)) ds = in_month m ds"
proof -
  from month_param_given [OF assms] obtain s where s: "q_month q = Some s" "s \<noteq> []"
    "parseInt s = Fin (of_nat m)" by blast
  show ?thesis
    unfolding select_def
    by (rule filter_cong)
      (simp_all add: matches_explicit sub_query_def s interpolate_def when_given_def month_eq_def)
qed

lemma sub_query_castable:
  assumes "parseInt_param (q_month q) = Fin (of_nat m)"
  shows "castable (build_query (sub_query q))"
proof -
  from month_param_given [OF assms] obtain s where s: "q_month q = Some s" "s \<noteq> []"
    "parseInt s = Fin (of_nat m)" by blast
  show ?thesis
    by (rule castable_readable) (simp add: sub_query_def s interpolate_def when_given_def)
qed

lemma sub_query_paging: "paging (sub_query q) 1 10"
  by (simp add: paging_def sub_query_def num_of_param_def int_of_param_def)

lemma sub_query_modelled: "modelled (build_query (sub_query q))"
  by (rule modelled_no_search) (simp add: sub_query_def)

text \<open>
  Claim C2, amended. When the database answers and the \<open>month\<close> parameter is a plain
  text that reads as the number \<open>m\<close>, the \<open>transactions\<close> component of the answer of
  \<open>/api/combined-data\<close> is the answer of the listing for that month with no search
  text and the default \<open>page = 1\<close> and \<open>perPage = 10\<close>: the first ten records of month
  \<open>m\<close> in storage order (all of them when they are at most ten), with \<open>total\<close> their
  whole number and \<open>totalPages\<close> the ceiling of \<open>total / 10\<close>.
\<close>

theorem combined_transactions_first_page:
  assumes "up d" and "parseInt_param (q_month q) = Fin (of_nat m)"
    and "list_all url_plain (interpolate (q_month q))"
  shows "transactions_component (combined_handler True d q) =
           Some (Json \<lparr> transactions = take 10 (in_month m (docs d)),
                        total_count = length (in_month m (docs d)),
                        page = Fin 1, perPage = Fin 10,
                        totalPages = Fin (of_int \<lceil>(of_nat (length (in_month m (docs d))) :: rat) / 10\<rceil>) \<rparr>)
         \<and> (length (in_month m (docs d)) \<le> 10 \<longrightarrow> take 10 (in_month m (docs d)) = in_month m (docs d))"
proof -
  note ms = select_sub_query [OF assms(2), of "docs d"]
  have "transactions_handler d (sub_query q) =
      Json \<lparr> transactions = take 10 (in_month m (docs d)),
             total_count = length (in_month m (docs d)),
             page = Fin 1, perPage = Fin 10,
             totalPages = Fin (of_int \<lceil>(of_nat (length (in_month m (docs d))) :: rat) / 10\<rceil>) \<rparr>"
    unfolding transactions_handler_page
        [OF assms(1) sub_query_castable [OF assms(2)] sub_query_modelled sub_query_paging] ms
    by (simp add: sub_query_def int_of_param_def)
  then show ?thesis
    using assms(3) by (simp add: transactions_component_def combined_handler_def)
qed

lemma eleven_up: "up eleven_db"
  by (simp add: eleven_db_def)

lemma plain_3: "list_all url_plain (interpolate (q_month (month_query ''3'')))"
  by (simp add: month_query_def interpolate_def url_plain_def)

lemma eleven_in_month: "in_month 3 (docs eleven_db) = replicate 11 (sale 1 50 True 3)"
  by (simp add: eleven_db_def sale_def)

lemma ceiling_11_10: "\<lceil>(11 :: rat) / 10\<rceil> = 2"
  by (rule ceiling_unique) simp_all

theorem combined_transactions_first_page_witness:
  "up eleven_db \<and> parseInt_param (q_month (month_query ''3'')) = Fin (of_nat 3)
   \<and> list_all url_plain (interpolate (q_month (month_query ''3'')))
   \<and> transactions_component (combined_handler True eleven_db (month_query ''3'')) =
       Some (Json \<lparr> transactions = replicate 10 (sale 1 50 True 3), total_count = 11,
                    page = Fin 1, perPage = Fin 10, totalPages = Fin 2 \<rparr>)"
proof -
  from combined_transactions_first_page [OF eleven_up scenario_month plain_3]
  have "transactions_component (combined_handler True eleven_db (month_query ''3'')) =
       Some (Json \<lparr> transactions = take 10 (replicate 11 (sale 1 50 True 3)),
                    total_count = length (replicate 11 (sale 1 50 True 3)),
                    page = Fin 1, perPage = Fin 10,
                    totalPages = Fin (of_int \<lceil>(of_nat (length (replicate 11 (sale 1 50 True 3))) :: rat) / 10\<rceil>) \<rparr>)"
    unfolding eleven_in_month by blast
  then have "transactions_component (combined_handler True eleven_db (month_query ''3'')) =
       Some (Json \<lparr> transactions = replicate 10 (sale 1 50 True 3), total_count = 11,
                    page = Fin 1, perPage = Fin 10, totalPages = Fin 2 \<rparr>)"
    by (simp add: ceiling_11_10)
  with eleven_up scenario_month plain_3 show ?thesis by blast
qed

text \<open>
  Claim C2 as stated fails with eleven records in March: the component lists ten of
  them, not the full listing of the month.
\<close>

theorem combined_transactions_counterexample:
  "transactions_component (combined_handler True eleven_db (month_query ''3'')) =
       Some (Json \<lparr> transactions = replicate 10 (sale 1 50 True 3), total_count = 11,
                    page = Fin 1, perPage = Fin 10, totalPages = Fin 2 \<rparr>)
   \<and> in_month 3 (docs eleven_db) = replicate 11 (sale 1 50 True 3)
   \<and> replicate 10 (sale 1 50 True 3) \<noteq> in_month 3 (docs eleven_db)"
proof -
  have ms: "select (build_query (sub_query (month_query ''3''))) (docs eleven_db) =
      replicate 11 (sale 1 50 True 3)"
    using select_sub_query [OF scenario_month, of "docs eleven_db"]
    by (simp only: eleven_in_month)
  have "transactions_handler eleven_db (sub_query (month_query ''3'')) =
      Json \<lparr> transactions = replicate 10 (sale 1 50 True 3), total_count = 11,
             page = Fin 1, perPage = Fin 10, totalPages = Fin 2 \<rparr>"
    unfolding transactions_handler_page
        [OF eleven_up sub_query_castable [OF scenario_month] sub_query_modelled sub_query_paging] ms
    using ceiling_11_10 by (simp add: sub_query_def int_of_param_def)
  then have c: "transactions_component (combined_handler True eleven_db (month_query ''3'')) =
       Some (Json \<lparr> transactions = replicate 10 (sale 1 50 True 3), total_count = 11,
                    page = Fin 1, perPage = Fin 10, totalPages = Fin 2 \<rparr>)"
    using plain_3 by (simp add: transactions_component_def combined_handler_def)
  have "length (replicate 10 (sale 1 50 True 3)) \<noteq> length (replicate 11 (sale 1 50 True 3))"
    by simp
  then have "replicate 10 (sale 1 50 True 3) \<noteq> replicate 11 (sale 1 50 True 3)"
    by metis
  with c eleven_in_month show ?thesis by simp
qed

section \<open>Properties of the initialisation\<close>

text \<open>
  Claim C10. When the fetch of the external source fails, or its body is not JSON,
  \<open>/api/initialize\<close> answers with status 500 and the database is as before. The
  stored records differ after the step only when the data were fetched and parsed.
\<close>

theorem initialize_failure_keeps_records:
  "(f = Fetch_failed \<or> f = Body_not_json \<longrightarrow>
      initialize_handler f d = (d, Status500 ''Failed to initialize database''))
   \<and> (fst (initialize_handler f d) \<noteq> d \<longrightarrow> (\<exists>dat. f = Parsed dat))"
  by (cases f) (simp_all add: initialize_handler_def)

theorem initialize_failure_keeps_records_witness:
  "initialize_handler Fetch_failed scenario_db = (scenario_db, Status500 ''Failed to initialize database'')
   \<and> initialize_handler Body_not_json scenario_db = (scenario_db, Status500 ''Failed to initialize database'')
   \<and> fst (initialize_handler (Parsed (Castable [])) scenario_db) \<noteq> scenario_db"
proof -
  have "fst (initialize_handler (Parsed (Castable [])) scenario_db) \<noteq> scenario_db"
    by (simp add: initialize_handler_def deleteMany_def insertMany_def scenario_db_def)
  with initialize_failure_keeps_records [of Fetch_failed scenario_db]
    initialize_failure_keeps_records [of Body_not_json scenario_db]
  show ?thesis by simp
qed

end
